theory Spec2Isabelle
  imports Main
begin

section \<open>Strings as JavaScript uses them\<close>

text \<open>
  \<open>String.prototype.split\<close> with a one-character separator: the result always has at
  least one part, and empty parts are kept (\<open>"1..2".split('.')\<close> has three parts).
\<close>

fun split_on :: "char \<Rightarrow> string \<Rightarrow> string list" where
  "split_on sep [] = [[]]"
| "split_on sep (c # cs) =
     (if c = sep then [] # split_on sep cs
      else (case split_on sep cs of
              [] \<Rightarrow> [[c]]
            | p # ps \<Rightarrow> (c # p) # ps))"

definition startsWith :: "string \<Rightarrow> string \<Rightarrow> bool" where
  "startsWith s pre = (take (length pre) s = pre)"

text \<open>A JavaScript string is truthy when it is not empty.\<close>

definition truthy :: "string \<Rightarrow> bool" where
  "truthy s = (s \<noteq> [])"

text \<open>The first element of an array, \<open>undefined\<close> (here \<open>None\<close>) when the array is empty.\<close>

fun first :: "'a list \<Rightarrow> 'a option" where
  "first [] = None"
| "first (x # xs) = Some x"

section \<open>Subnet derivation\<close>

text \<open>
  \<open>ResearchMode.extractSubnet\<close> (research_mode.js): split at the dots; anything but four
  parts gives \<open>null\<close>; otherwise the first three parts followed by \<open>.0/24\<close>.
\<close>

definition subnetOfParts :: "string list \<Rightarrow> string" where
  "subnetOfParts parts = (parts ! 0) @ ''.'' @ (parts ! 1) @ ''.'' @ (parts ! 2) @ ''.0/24''"

definition extractSubnet :: "string \<Rightarrow> string option" where
  "extractSubnet ip =
     (let parts = split_on (CHR ''.'') ip
      in if length parts \<noteq> 4 then None else Some (subnetOfParts parts))"

section \<open>The real-time listener: data\<close>

text \<open>
  The watchlist and profile as the listener reads them. A field the listener guards with
  a truthiness test is an option (\<open>None\<close>: \<open>null\<close> or absent).
\<close>

record watchlist =
  ips :: "string list option"
  subnets :: "string list option"

record dna =
  ssl_issuers :: "string list"
  css_variables :: "string list"
  script_hashes :: "string list"
  dom_hashes :: "string list"
  elementor_data_ids :: "string list"
  common_class_names :: "string list"
  tracking_scripts :: "string list"

record profile =
  deep_dna :: "dna option"

text \<open>A regular expression of \<open>domainPatterns\<close> is represented by its \<open>test\<close> function.\<close>

type_synonym pattern = "string \<Rightarrow> bool"

record config =
  watchlistOf :: "watchlist option"
  profileOf :: "profile option"
  domainPatterns :: "pattern list"

record cert_issuer =
  issuer_O :: "string option"

record leaf_cert =
  subject_CN :: "string option"
  subjectAltName :: "string list option"
  all_domains :: "string list option"
  issuer :: "cert_issuer option"
  not_before :: "int option"
  not_after :: "int option"

record cert_data =
  leaf :: "leaf_cert option"

record alert =
  timestamp :: string
  domain :: string
  ip :: "string option"
  issuerName :: "string option"
  notBefore :: "int option"
  notAfter :: "int option"
  matchType :: string
  confidence :: string
  deepDNADetails :: "string option"
  status :: "string option"

text \<open>
  The mutable fields of the listener object, together with a log of what it did to the
  outside: the alerts handed to \<open>emit('cabal_detected', _)\<close>, the alerts appended by
  \<open>saveAlert\<close>, and the names passed to \<open>dns.resolve4\<close>, each in call order.
  The registered callbacks and the write of the alerts file are taken not to throw.
\<close>

record listener =
  knownCabalDomains :: "string set"
  messageCount :: nat
  detectedCount :: nat
  emitted :: "alert list"
  saved :: "alert list"
  dnsQueries :: "string list"

text \<open>
  The outside world of one call: \<open>resolve4 n d\<close> is the answer of the \<open>n\<close>-th DNS query
  of the session when it asks for \<open>d\<close> (\<open>None\<close>: the lookup throws), so the same name may
  resolve differently each time; \<open>clock n\<close> is the time read when \<open>n\<close> alerts exist.
\<close>

record env =
  resolve4 :: "nat \<Rightarrow> string \<Rightarrow> string list option"
  clock :: "nat \<Rightarrow> string"

section \<open>The real-time listener: matching\<close>

text \<open>\<open>isIPWatched\<close>: a direct hit in \<open>ips\<close>, or the derived /24 in \<open>subnets\<close>.\<close>

definition isIPWatched :: "config \<Rightarrow> string \<Rightarrow> bool" where
  "isIPWatched cfg addr =
     (case watchlistOf cfg of
        None \<Rightarrow> False
      | Some w \<Rightarrow>
          if (case ips w of None \<Rightarrow> False | Some l \<Rightarrow> addr \<in> set l) then True
          else (case subnets w of
                  None \<Rightarrow> False
                | Some sl \<Rightarrow>
                    (let parts = split_on (CHR ''.'') addr
                     in length parts = 4 \<and> subnetOfParts parts \<in> set sl)))"

definition matchesPatterns :: "config \<Rightarrow> string \<Rightarrow> bool" where
  "matchesPatterns cfg d = list_ex (\<lambda>p. p d) (domainPatterns cfg)"

text \<open>\<open>certData?.leaf_cert?.issuer?.O || null\<close>\<close>

definition issuerOf :: "cert_data \<Rightarrow> string option" where
  "issuerOf certData =
     (case leaf certData of
        None \<Rightarrow> None
      | Some lc \<Rightarrow>
          (case issuer lc of
             None \<Rightarrow> None
           | Some i \<Rightarrow>
               (case issuer_O i of
                  None \<Rightarrow> None
                | Some s \<Rightarrow> if truthy s then Some s else None)))"

text \<open>
  \<open>performDeepDNAMatch\<close> returns \<open>null\<close> or an object with \<open>type\<close>, \<open>confidence\<close> and
  \<open>details\<close>, here a triple.
\<close>

definition performDeepDNAMatch :: "config \<Rightarrow> string \<Rightarrow> cert_data \<Rightarrow> (string \<times> string \<times> string) option" where
  "performDeepDNAMatch cfg d certData =
     (case profileOf cfg of
        None \<Rightarrow> None
      | Some p \<Rightarrow>
          (case deep_dna p of
             None \<Rightarrow> None
           | Some g \<Rightarrow>
               (case issuerOf certData of
                  Some i \<Rightarrow>
                    if i \<in> set (ssl_issuers g)
                    then Some (''SSL_ISSUER_MATCH'', ''MEDIUM'', ''SSL Issuer matches known cabal: '' @ i)
                    else if matchesPatterns cfg d
                    then Some (''PATTERN_MATCH'', ''MEDIUM'', ''Domain matches cabal heuristic pattern: '' @ d)
                    else None
                | None \<Rightarrow>
                    if matchesPatterns cfg d
                    then Some (''PATTERN_MATCH'', ''MEDIUM'', ''Domain matches cabal heuristic pattern: '' @ d)
                    else None)))"

text \<open>
  The fields every alert of \<open>processDomains\<close> shares:
  \<open>issuer: certData.leaf_cert && certData.leaf_cert.issuer ? certData.leaf_cert.issuer.O : 'Unknown'\<close>,
  and the validity dates when there is a leaf certificate.
\<close>

definition alertIssuer :: "cert_data \<Rightarrow> string option" where
  "alertIssuer certData =
     (case leaf certData of
        None \<Rightarrow> Some ''Unknown''
      | Some lc \<Rightarrow> (case issuer lc of None \<Rightarrow> Some ''Unknown'' | Some i \<Rightarrow> issuer_O i))"

definition mkAlert ::
  "env \<Rightarrow> listener \<Rightarrow> cert_data \<Rightarrow> string \<Rightarrow> string option \<Rightarrow> string \<Rightarrow> string \<Rightarrow>
   string option \<Rightarrow> string option \<Rightarrow> alert" where
  "mkAlert e s certData d resolvedIP mt conf details st =
     \<lparr> timestamp = clock e (length (emitted s)),
       domain = d,
       ip = resolvedIP,
       issuerName = alertIssuer certData,
       notBefore = (case leaf certData of None \<Rightarrow> None | Some lc \<Rightarrow> not_before lc),
       notAfter = (case leaf certData of None \<Rightarrow> None | Some lc \<Rightarrow> not_after lc),
       matchType = mt,
       confidence = conf,
       deepDNADetails = details,
       status = st \<rparr>"

text \<open>
  What each alerting branch does after building the alert: count it, add the domain to
  the seen-set, \<open>emit\<close> it and \<open>saveAlert\<close> it.
\<close>

definition raise :: "alert \<Rightarrow> listener \<Rightarrow> listener" where
  "raise a s =
     s\<lparr> detectedCount := detectedCount s + 1,
        knownCabalDomains := insert (domain a) (knownCabalDomains s),
        emitted := emitted s @ [a],
        saved := saved s @ [a] \<rparr>"

text \<open>
  \<open>resolvedIP\<close>: \<open>null\<close>, then \<open>addresses[0]\<close> of \<open>dns.resolve4(domain)\<close>; a lookup that
  throws leaves it \<open>null\<close>, an empty answer makes it \<open>undefined\<close> (both \<open>None\<close>).
\<close>

definition lookupIP :: "env \<Rightarrow> listener \<Rightarrow> string \<Rightarrow> string option" where
  "lookupIP e s d =
     (case resolve4 e (length (dnsQueries s)) d of
        None \<Rightarrow> None
      | Some addresses \<Rightarrow> first addresses)"

text \<open>\<open>isWatchedIP = resolvedIP ? this.isIPWatched(resolvedIP) : false\<close>\<close>

definition isWatchedIP :: "config \<Rightarrow> string option \<Rightarrow> bool" where
  "isWatchedIP cfg resolvedIP =
     (case resolvedIP of
        None \<Rightarrow> False
      | Some a \<Rightarrow> truthy a \<and> isIPWatched cfg a)"

text \<open>One iteration of the loop of \<open>processDomains\<close>.\<close>

definition processDomain :: "config \<Rightarrow> env \<Rightarrow> cert_data \<Rightarrow> string \<Rightarrow> listener \<Rightarrow> listener" where
  "processDomain cfg e certData d s =
     (if startsWith d ''*.'' \<or> d = [] then s
      else
        let matchesPattern = matchesPatterns cfg d;
            resolvedIP = lookupIP e s d;
            s1 = s\<lparr> dnsQueries := dnsQueries s @ [d] \<rparr>
        in
          if isWatchedIP cfg resolvedIP then
            raise (mkAlert e s1 certData d resolvedIP ''IP_MATCH'' ''CRITICAL'' None None) s1
          else if matchesPattern \<and> d \<notin> knownCabalDomains s1 then
            (case performDeepDNAMatch cfg d certData of
               Some (mt, conf, details) \<Rightarrow>
                 raise (mkAlert e s1 certData d resolvedIP mt conf (Some details) None) s1
             | None \<Rightarrow>
                 if matchesPattern then
                   raise (mkAlert e s1 certData d resolvedIP ''PATTERN_MATCH'' ''MEDIUM'' None
                            (Some ''PENDING_MANUAL_REVIEW'')) s1
                 else s1)
          else s1)"

fun processDomains :: "config \<Rightarrow> env \<Rightarrow> string list \<Rightarrow> cert_data \<Rightarrow> listener \<Rightarrow> listener" where
  "processDomains cfg e [] certData s = s"
| "processDomains cfg e (d # ds) certData s =
     processDomains cfg e ds certData (processDomain cfg e certData d s)"

text \<open>The alerts a call added: those of \<open>emitted\<close> after the call beyond those before it.\<close>

definition newAlerts :: "listener \<Rightarrow> listener \<Rightarrow> alert list" where
  "newAlerts s s' = drop (length (emitted s)) (emitted s')"

text \<open>
  The constructor: the seen-set starts as \<open>config.knownCabalDomains\<close> (empty when not
  given), the counters at zero.
\<close>

definition newListener :: "string list \<Rightarrow> listener" where
  "newListener known =
     \<lparr> knownCabalDomains = set known, messageCount = 0, detectedCount = 0,
       emitted = [], saved = [], dnsQueries = [] \<rparr>"

section \<open>The real-time listener: messages\<close>

text \<open>
  \<open>extractDomainsFromCert\<close> collects the common name, the alternative names and
  \<open>all_domains\<close> in a \<open>Set\<close> and returns \<open>Array.from\<close> of it: insertion order, no
  duplicates. The alternative names are strings here, as in the wire protocol, so the
  \<open>typeof san === 'string'\<close> test keeps them all.
\<close>

definition addUnique :: "'a \<Rightarrow> 'a list \<Rightarrow> 'a list" where
  "addUnique x xs = (if x \<in> set xs then xs else xs @ [x])"

definition extractDomainsFromCert :: "leaf_cert \<Rightarrow> string list" where
  "extractDomainsFromCert leafCert =
     (let d1 = (case subject_CN leafCert of
                  None \<Rightarrow> []
                | Some cn \<Rightarrow> if truthy cn then addUnique cn [] else []);
          d2 = (case subjectAltName leafCert of
                  None \<Rightarrow> d1
                | Some sanList \<Rightarrow> fold addUnique sanList d1)
      in (case all_domains leafCert of
            None \<Rightarrow> d2
          | Some ds \<Rightarrow> fold addUnique ds d2))"

text \<open>
  A text frame after \<open>JSON.parse\<close>: it does not parse, it is the JSON value \<open>null\<close>, or
  it is a value with (possibly absent) \<open>message_type\<close> and \<open>data\<close>.
\<close>

datatype message =
    Unparseable
  | JsonNull
  | Json "string option" "cert_data option"

text \<open>
  \<open>handleCertificateMessage\<close>, when nothing else runs before it returns. A frame that
  does not parse is logged and dropped before the counter moves; \<open>null\<close> is counted and
  then dropped by the same \<open>catch\<close>.
\<close>

definition handleCertificateMessage :: "config \<Rightarrow> env \<Rightarrow> message \<Rightarrow> listener \<Rightarrow> listener" where
  "handleCertificateMessage cfg e raw l =
     (case raw of
        Unparseable \<Rightarrow> l
      | JsonNull \<Rightarrow> l\<lparr> messageCount := messageCount l + 1 \<rparr>
      | Json message_type dat \<Rightarrow>
          (let l1 = l\<lparr> messageCount := messageCount l + 1 \<rparr>
           in if message_type = Some ''certificate_update'' then
                (case dat of
                   None \<Rightarrow> l1
                 | Some certData \<Rightarrow>
                     (case leaf certData of
                        None \<Rightarrow> l1
                      | Some leafCert \<Rightarrow>
                          processDomains cfg e (extractDomainsFromCert leafCert) certData l1))
              else l1))"

text \<open>
  \<open>handleCertificateMessage\<close> and \<open>processDomains\<close> are \<open>async\<close>, and the socket's
  \<open>message\<close> handler does not wait for them: a call runs until its next \<open>await\<close> and
  is resumed later, while other handlers run in between. A suspended call is pending:
  it waits for \<open>dns.resolve4(domain)\<close> (with the number of its query), or it has
  passed the seen-set test and waits for \<open>performDeepDNAMatch\<close>; it carries the
  certificate, the domain at hand, the domains still to come and, in the second case, the
  resolved address.
\<close>

datatype pending =
    AwaitDns cert_data string "string list" nat
  | AwaitMatch cert_data string "string list" "string option"

text \<open>
  The head of the loop of \<open>processDomains\<close>: skip the filtered domains, and for the
  first other one issue the DNS query and suspend; \<open>None\<close> when the list is exhausted.
\<close>

fun nextDomain :: "cert_data \<Rightarrow> string list \<Rightarrow> listener \<Rightarrow> listener \<times> pending option" where
  "nextDomain certData [] l = (l, None)"
| "nextDomain certData (d # ds) l =
     (if startsWith d ''*.'' \<or> d = [] then nextDomain certData ds l
      else (l\<lparr> dnsQueries := dnsQueries l @ [d] \<rparr>,
            Some (AwaitDns certData d ds (length (dnsQueries l)))))"

text \<open>
  Resuming a pending call. After the DNS answer: an alert for a watched address, or the seen-set
  test and the call of \<open>performDeepDNAMatch\<close>, or nothing. After the deep match: the
  alert it calls for, without a second look at the seen-set. Then the loop goes on.
\<close>

fun resume :: "config \<Rightarrow> env \<Rightarrow> pending \<Rightarrow> listener \<Rightarrow> listener \<times> pending option" where
  "resume cfg e (AwaitDns certData d ds n) l =
     (let resolvedIP = (case resolve4 e n d of None \<Rightarrow> None | Some addresses \<Rightarrow> first addresses)
      in if isWatchedIP cfg resolvedIP then
           nextDomain certData ds
             (raise (mkAlert e l certData d resolvedIP ''IP_MATCH'' ''CRITICAL'' None None) l)
         else if matchesPatterns cfg d \<and> d \<notin> knownCabalDomains l then
           (l, Some (AwaitMatch certData d ds resolvedIP))
         else nextDomain certData ds l)"
| "resume cfg e (AwaitMatch certData d ds resolvedIP) l =
     nextDomain certData ds
       (case performDeepDNAMatch cfg d certData of
          Some (mt, conf, details) \<Rightarrow>
            raise (mkAlert e l certData d resolvedIP mt conf (Some details) None) l
        | None \<Rightarrow>
            if matchesPatterns cfg d then
              raise (mkAlert e l certData d resolvedIP ''PATTERN_MATCH'' ''MEDIUM'' None
                       (Some ''PENDING_MANUAL_REVIEW'')) l
            else l)"

text \<open>
  The part of \<open>handleCertificateMessage\<close> that runs at once when a frame arrives: parse,
  count, test the message type, extract the domains and enter the loop.
\<close>

definition receive :: "message \<Rightarrow> listener \<Rightarrow> listener \<times> pending option" where
  "receive raw l =
     (case raw of
        Unparseable \<Rightarrow> (l, None)
      | JsonNull \<Rightarrow> (l\<lparr> messageCount := messageCount l + 1 \<rparr>, None)
      | Json message_type dat \<Rightarrow>
          (let l1 = l\<lparr> messageCount := messageCount l + 1 \<rparr>
           in if message_type = Some ''certificate_update'' then
                (case dat of
                   None \<Rightarrow> (l1, None)
                 | Some certData \<Rightarrow>
                     (case leaf certData of
                        None \<Rightarrow> (l1, None)
                      | Some leafCert \<Rightarrow>
                          nextDomain certData (extractDomainsFromCert leafCert) l1))
              else (l1, None)))"

text \<open>
  The pending calls of the session are kept in a list; one that finishes leaves it, one that
  suspends again stays in its place.
\<close>

definition settle :: "pending list \<Rightarrow> nat \<Rightarrow> pending option \<Rightarrow> pending list" where
  "settle ts i t = (case t of None \<Rightarrow> take i ts @ drop (Suc i) ts | Some t' \<Rightarrow> ts[i := t'])"

section \<open>The real-time listener: connection\<close>

text \<open>
  \<open>connect(maxRetries)\<close> keeps its state in closure variables (\<open>retryCount\<close>,
  \<open>retryDelay\<close>, \<open>isAlive\<close>, the two interval handles) and in \<open>this.ws\<close> and
  \<open>this.isConnected\<close>. The record adds what the handlers do to the outside: the pending
  \<open>setTimeout\<close> of the reconnection with its delay in milliseconds, the number of sockets
  \<open>attemptConnection\<close> has created, and the pings sent.
\<close>

datatype readyState = CONNECTING | OPEN | CLOSING | CLOSED

record connection =
  ws :: "readyState option"
  isConnected :: bool
  retryCount :: nat
  retryDelay :: nat
  isAlive :: bool
  pingInterval :: bool
  stallCheckInterval :: bool
  reconnectTimer :: "nat option"
  attempts :: nat
  pingsSent :: nat

definition attemptConnection :: "connection \<Rightarrow> connection" where
  "attemptConnection c = c\<lparr> ws := Some CONNECTING, attempts := attempts c + 1 \<rparr>"

text \<open>The constructor's fields and the initial values of the closure variables.\<close>

definition initialConnection :: connection where
  "initialConnection =
     \<lparr> ws = None, isConnected = False, retryCount = 0, retryDelay = 1000, isAlive = True,
       pingInterval = False, stallCheckInterval = False, reconnectTimer = None,
       attempts = 0, pingsSent = 0 \<rparr>"

definition connect :: connection where
  "connect = attemptConnection initialConnection"

text \<open>The handlers \<open>attemptConnection\<close> registers, and the bodies of the three timers.\<close>

definition onOpen :: "connection \<Rightarrow> connection" where
  "onOpen c =
     c\<lparr> ws := Some OPEN, isConnected := True, isAlive := True, retryCount := 0,
        retryDelay := 1000, pingInterval := True, stallCheckInterval := True \<rparr>"

definition onPingTick :: "connection \<Rightarrow> connection" where
  "onPingTick c = (if ws c = Some OPEN then c\<lparr> pingsSent := pingsSent c + 1 \<rparr> else c)"

text \<open>\<open>ws.terminate()\<close> destroys the socket; its \<open>close\<close> event follows.\<close>

definition terminate :: "readyState option \<Rightarrow> readyState option" where
  "terminate w = (case w of None \<Rightarrow> None | Some CLOSED \<Rightarrow> Some CLOSED | Some _ \<Rightarrow> Some CLOSING)"

definition onStallCheck :: "connection \<Rightarrow> connection" where
  "onStallCheck c =
     (let c1 = (if \<not> isAlive c then c\<lparr> ws := terminate (ws c) \<rparr> else c)
      in c1\<lparr> isAlive := False \<rparr>)"

definition onPong :: "connection \<Rightarrow> connection" where
  "onPong c = c\<lparr> isAlive := True \<rparr>"

definition onError :: "connection \<Rightarrow> connection" where
  "onError c = c\<lparr> ws := Some CLOSING, isConnected := False \<rparr>"

definition onClose :: "nat \<Rightarrow> connection \<Rightarrow> connection" where
  "onClose maxRetries c =
     (let c1 = c\<lparr> ws := Some CLOSED, isConnected := False, isAlive := False,
                  pingInterval := False, stallCheckInterval := False \<rparr>
      in if retryCount c1 < maxRetries
         then c1\<lparr> retryCount := retryCount c1 + 1, reconnectTimer := Some (retryDelay c1) \<rparr>
         else c1)"

definition onRetryTimer :: "connection \<Rightarrow> connection" where
  "onRetryTimer c =
     attemptConnection (c\<lparr> reconnectTimer := None, retryDelay := min (retryDelay c * 2) 30000 \<rparr>)"

text \<open>
  What can happen to a session, and when: a socket opens only while connecting, delivers
  frames and pongs only while open, closes once (after an error or without one); an
  interval fires only while its handle is held; the reconnection fires only once it is
  scheduled; a pending call can be resumed at any time, in any order, whatever the
  state of the socket. An event that cannot happen in a state has no successor
  (\<open>None\<close>).
\<close>

datatype event =
    EvOpen
  | EvMessage message
  | EvPong
  | EvError
  | EvClose
  | EvPingTick
  | EvStallCheck
  | EvRetryTimer
  | EvResume nat

definition enabled :: "connection \<Rightarrow> pending list \<Rightarrow> event \<Rightarrow> bool" where
  "enabled c ts ev =
     (case ev of
        EvOpen \<Rightarrow> ws c = Some CONNECTING
      | EvMessage m \<Rightarrow> ws c = Some OPEN
      | EvPong \<Rightarrow> ws c = Some OPEN
      | EvError \<Rightarrow> ws c = Some CONNECTING \<or> ws c = Some OPEN
      | EvClose \<Rightarrow> ws c = Some CONNECTING \<or> ws c = Some OPEN \<or> ws c = Some CLOSING
      | EvPingTick \<Rightarrow> pingInterval c
      | EvStallCheck \<Rightarrow> stallCheckInterval c
      | EvRetryTimer \<Rightarrow> reconnectTimer c \<noteq> None
      | EvResume i \<Rightarrow> i < length ts)"

type_synonym session = "listener \<times> connection \<times> pending list"

definition step :: "nat \<Rightarrow> config \<Rightarrow> env \<Rightarrow> session \<Rightarrow> event \<Rightarrow> session option" where
  "step maxRetries cfg e s ev =
     (case s of (l, c, ts) \<Rightarrow>
        if \<not> enabled c ts ev then None
        else Some
          (case ev of
             EvOpen \<Rightarrow> (l, onOpen c, ts)
           | EvMessage m \<Rightarrow>
               (case receive m l of
                  (l', None) \<Rightarrow> (l', c, ts)
                | (l', Some t) \<Rightarrow> (l', c, ts @ [t]))
           | EvPong \<Rightarrow> (l, onPong c, ts)
           | EvError \<Rightarrow> (l, onError c, ts)
           | EvClose \<Rightarrow> (l, onClose maxRetries c, ts)
           | EvPingTick \<Rightarrow> (l, onPingTick c, ts)
           | EvStallCheck \<Rightarrow> (l, onStallCheck c, ts)
           | EvRetryTimer \<Rightarrow> (l, onRetryTimer c, ts)
           | EvResume i \<Rightarrow>
               (case resume cfg e (ts ! i) l of (l', t) \<Rightarrow> (l', c, settle ts i t))))"

fun run :: "nat \<Rightarrow> config \<Rightarrow> env \<Rightarrow> session \<Rightarrow> event list \<Rightarrow> session option" where
  "run maxRetries cfg e s [] = Some s"
| "run maxRetries cfg e s (ev # evs) =
     (case step maxRetries cfg e s ev of
        None \<Rightarrow> None
      | Some s' \<Rightarrow> run maxRetries cfg e s' evs)"

text \<open>
  The number of \<open>close\<close> events in a row at the end of a history: those since the last
  \<open>open\<close>, or since the start when no socket has opened.
\<close>

fun countClose :: "nat \<Rightarrow> event \<Rightarrow> nat" where
  "countClose n EvOpen = 0"
| "countClose n EvClose = Suc n"
| "countClose n ev = n"

definition closesSinceOpen :: "event list \<Rightarrow> nat" where
  "closesSinceOpen evs = foldl countClose 0 evs"

section \<open>The fingerprint extractor\<close>

text \<open>
  What \<open>extractSSLFingerprint\<close> resolves to when the handshake yields a certificate.
\<close>

record ssl_info =
  issuer_organization :: string
  issuer_commonName :: string
  issuer_country :: string
  subject_commonName :: string
  validFrom :: string
  validTo :: string
  cert_fingerprint :: string

text \<open>\<open>this.fingerprints.ssl = sslInfo || { error: 'Could not retrieve SSL info' }\<close>\<close>

datatype ssl_field = SslInfo ssl_info | SslError string

text \<open>
  The structural fields a layer extracts from a page. How a layer obtains them (HTTP
  fetch, HTML parser, browser, SHA-256) is outside the model: the page and the tools are
  the outside world, which hands each layer its extraction or makes it throw.
\<close>

record extraction =
  x_dom_hash :: "string option"
  x_css_vars :: "(string \<times> string) list"
  x_elementor_data_ids :: "string list"
  x_common_class_names :: "string list"
  x_uses_wp_uploads :: bool
  x_uses_tinybird :: bool
  x_script_hashes :: "string list"

text \<open>
  A layer returns \<open>{ success: false }\<close> or its extraction with \<open>success: true\<close> and its
  name in \<open>extracted_via\<close>.
\<close>

datatype layer_result = Failed | Succeeded extraction string

fun success :: "layer_result \<Rightarrow> bool" where
  "success Failed = False"
| "success (Succeeded x via) = True"

text \<open>
  The outside world of one \<open>fingerprintSite(url)\<close>: the host name \<open>new URL(url)\<close> yields
  or the message of the error it throws; the certificate facts or \<open>null\<close>; the answer of
  \<open>dns.resolve4\<close> or the message of its error; and for each layer what the body of its
  \<open>try\<close> block extracts, \<open>None\<close> when something in it throws.
\<close>

record site =
  parsedHostname :: "string + string"
  sslResult :: "ssl_info option"
  dnsAnswer :: "string + string list"
  htmlParser :: "extraction option"
  remoteBrowser :: "extraction option"
  localBrowser :: "extraction option"

datatype layer = Layer1 | Layer2 | Layer3

definition extractUsingHTMLParser :: "site \<Rightarrow> layer_result" where
  "extractUsingHTMLParser w =
     (case htmlParser w of None \<Rightarrow> Failed | Some x \<Rightarrow> Succeeded x ''AXIOS_CHEERIO'')"

definition extractUsingRemoteBrowser :: "string option \<Rightarrow> site \<Rightarrow> layer_result" where
  "extractUsingRemoteBrowser remoteBrowserEndpoint w =
     (if (case remoteBrowserEndpoint of None \<Rightarrow> True | Some ep \<Rightarrow> \<not> truthy ep) then Failed
      else (case remoteBrowser w of None \<Rightarrow> Failed | Some x \<Rightarrow> Succeeded x ''PLAYWRIGHT_REMOTE''))"

definition extractUsingLocalBrowser :: "site \<Rightarrow> layer_result" where
  "extractUsingLocalBrowser w =
     (case localBrowser w of None \<Rightarrow> Failed | Some x \<Rightarrow> Succeeded x ''PLAYWRIGHT_LOCAL'')"

definition callLayer :: "string option \<Rightarrow> site \<Rightarrow> layer \<Rightarrow> layer_result" where
  "callLayer remoteBrowserEndpoint w k =
     (case k of
        Layer1 \<Rightarrow> extractUsingHTMLParser w
      | Layer2 \<Rightarrow> extractUsingRemoteBrowser remoteBrowserEndpoint w
      | Layer3 \<Rightarrow> extractUsingLocalBrowser w)"

text \<open>
  The loop over \<open>layers\<close>: call the next layer, keep its result in \<open>extractionResult\<close>,
  stop at the first success. The second component logs each call with what it reported.
\<close>

fun tryLayers ::
  "string option \<Rightarrow> site \<Rightarrow> layer list \<Rightarrow> layer_result option \<Rightarrow> (layer \<times> bool) list \<Rightarrow>
   layer_result option \<times> (layer \<times> bool) list" where
  "tryLayers ep w [] extractionResult calls = (extractionResult, calls)"
| "tryLayers ep w (k # ks) extractionResult calls =
     (let r = callLayer ep w k
      in if success r then (Some r, calls @ [(k, True)])
         else tryLayers ep w ks (Some r) (calls @ [(k, False)]))"

text \<open>
  \<open>this.fingerprints\<close>. It starts as \<open>{ url }\<close>; a field not assigned yet is \<open>None\<close>
  (for \<open>fp_dom_hash\<close> also when it is \<open>null\<close>).
\<close>

record fingerprint =
  fp_url :: string
  fp_ssl :: "ssl_field option"
  fp_ip :: "string option"
  fp_domain :: "string option"
  fp_dom_hash :: "string option"
  fp_css_vars :: "(string \<times> string) list option"
  fp_elementor_data_ids :: "string list option"
  fp_common_class_names :: "string list option"
  fp_script_hashes :: "string list option"
  fp_uses_wp_uploads :: "bool option"
  fp_uses_tinybird :: "bool option"
  fp_extracted_via :: "string option"
  fp_error :: "string option"

definition emptyFingerprint :: "string \<Rightarrow> fingerprint" where
  "emptyFingerprint u =
     \<lparr> fp_url = u, fp_ssl = None, fp_ip = None, fp_domain = None, fp_dom_hash = None,
       fp_css_vars = None, fp_elementor_data_ids = None, fp_common_class_names = None,
       fp_script_hashes = None, fp_uses_wp_uploads = None, fp_uses_tinybird = None,
       fp_extracted_via = None, fp_error = None \<rparr>"

definition dnsSslOnly :: "fingerprint \<Rightarrow> fingerprint" where
  "dnsSslOnly fp =
     fp\<lparr> fp_dom_hash := None, fp_css_vars := Some [], fp_elementor_data_ids := Some [],
         fp_common_class_names := Some [], fp_script_hashes := Some [],
         fp_uses_wp_uploads := Some False, fp_uses_tinybird := Some False,
         fp_extracted_via := Some ''DNS_SSL_ONLY'' \<rparr>"

definition mergeExtraction :: "extraction \<Rightarrow> string \<Rightarrow> fingerprint \<Rightarrow> fingerprint" where
  "mergeExtraction x via fp =
     fp\<lparr> fp_dom_hash := x_dom_hash x, fp_css_vars := Some (x_css_vars x),
         fp_elementor_data_ids := Some (x_elementor_data_ids x),
         fp_common_class_names := Some (x_common_class_names x),
         fp_script_hashes := Some (x_script_hashes x),
         fp_uses_wp_uploads := Some (x_uses_wp_uploads x),
         fp_uses_tinybird := Some (x_uses_tinybird x),
         fp_extracted_via := Some via \<rparr>"

text \<open>
  \<open>fingerprintSite\<close> returns \<open>this.fingerprints\<close>; the model returns with it the log of
  the layer calls. An exception of \<open>new URL\<close> or of \<open>dns.resolve4\<close> is caught at the end:
  its message goes into \<open>error\<close>, and the layers are never reached.
\<close>

definition fingerprintSite ::
  "string option \<Rightarrow> site \<Rightarrow> string \<Rightarrow> fingerprint \<times> (layer \<times> bool) list" where
  "fingerprintSite remoteBrowserEndpoint w u =
     (case parsedHostname w of
        Inl msg \<Rightarrow> ((emptyFingerprint u)\<lparr> fp_error := Some msg \<rparr>, [])
      | Inr hostname \<Rightarrow>
          (let fp1 = (emptyFingerprint u)
                 \<lparr> fp_ssl := Some (case sslResult w of
                                     None \<Rightarrow> SslError ''Could not retrieve SSL info''
                                   | Some i \<Rightarrow> SslInfo i) \<rparr>
           in case dnsAnswer w of
                Inl msg \<Rightarrow> (fp1\<lparr> fp_error := Some msg \<rparr>, [])
              | Inr addresses \<Rightarrow>
                  (let fp2 = fp1\<lparr> fp_ip := first addresses, fp_domain := Some hostname \<rparr>
                   in case tryLayers remoteBrowserEndpoint w [Layer1, Layer2, Layer3] None [] of
                        (Some (Succeeded x via), calls) \<Rightarrow> (mergeExtraction x via fp2, calls)
                      | (_, calls) \<Rightarrow> (dnsSslOnly fp2, calls))))"

text \<open>
  The degraded fingerprint: no structural hash, empty lists, flags off, the fallback
  recorded in \<open>extracted_via\<close>, no error.
\<close>

definition degraded :: "fingerprint \<Rightarrow> bool" where
  "degraded fp =
     (fp_dom_hash fp = None \<and> fp_css_vars fp = Some [] \<and> fp_script_hashes fp = Some []
      \<and> fp_elementor_data_ids fp = Some [] \<and> fp_common_class_names fp = Some []
      \<and> fp_uses_wp_uploads fp = Some False \<and> fp_uses_tinybird fp = Some False
      \<and> fp_extracted_via fp = Some ''DNS_SSL_ONLY'' \<and> fp_error fp = None)"

text \<open>
  Three sites for the scenarios: one whose static HTML can be fetched, one that only the
  local browser can render, one that resolves but that no layer can read.
\<close>

definition staticSite :: site where
  "staticSite =
     \<lparr> parsedHostname = Inr ''whitecat.fun'', sslResult = None,
       dnsAnswer = Inr [''159.198.65.100''],
       htmlParser = Some \<lparr> x_dom_hash = Some ''ab12'', x_css_vars = [(''--accent'', ''#fff'')],
         x_elementor_data_ids = [], x_common_class_names = [], x_uses_wp_uploads = False,
         x_uses_tinybird = True, x_script_hashes = [''/flock.js''] \<rparr>,
       remoteBrowser = None, localBrowser = None \<rparr>"

definition renderedSite :: site where
  "renderedSite = staticSite\<lparr> htmlParser := None, localBrowser := htmlParser staticSite \<rparr>"

definition unreachableSite :: site where
  "unreachableSite = staticSite\<lparr> htmlParser := None \<rparr>"

text \<open>
  Two further sites: one that only the remote browser can render, and one whose host
  name does not resolve although its static HTML could be fetched.
\<close>

definition remoteSite :: site where
  "remoteSite = staticSite\<lparr> htmlParser := None, remoteBrowser := htmlParser staticSite \<rparr>"

definition unresolvedSite :: site where
  "unresolvedSite = staticSite\<lparr> dnsAnswer := Inl ''queryA ENOTFOUND whitecat.fun'' \<rparr>"

text \<open>
  The results the extractor is expected to return, field by field: the fingerprint that
  carries a layer's extraction under that layer's name, and the degraded fingerprint;
  both with the URL, the SSL field, the resolved address and the host name, and no error.
\<close>

definition sslFieldOf :: "site \<Rightarrow> ssl_field" where
  "sslFieldOf w =
     (case sslResult w of None \<Rightarrow> SslError ''Could not retrieve SSL info'' | Some i \<Rightarrow> SslInfo i)"

definition extractedFingerprint ::
  "string \<Rightarrow> ssl_field \<Rightarrow> string option \<Rightarrow> string \<Rightarrow> extraction \<Rightarrow> string \<Rightarrow> fingerprint" where
  "extractedFingerprint u sslField addr host x via =
     \<lparr> fp_url = u, fp_ssl = Some sslField, fp_ip = addr, fp_domain = Some host,
       fp_dom_hash = x_dom_hash x, fp_css_vars = Some (x_css_vars x),
       fp_elementor_data_ids = Some (x_elementor_data_ids x),
       fp_common_class_names = Some (x_common_class_names x),
       fp_script_hashes = Some (x_script_hashes x),
       fp_uses_wp_uploads = Some (x_uses_wp_uploads x),
       fp_uses_tinybird = Some (x_uses_tinybird x),
       fp_extracted_via = Some via, fp_error = None \<rparr>"

definition degradedFingerprint ::
  "string \<Rightarrow> ssl_field \<Rightarrow> string option \<Rightarrow> string \<Rightarrow> fingerprint" where
  "degradedFingerprint u sslField addr host =
     \<lparr> fp_url = u, fp_ssl = Some sslField, fp_ip = addr, fp_domain = Some host,
       fp_dom_hash = None, fp_css_vars = Some [], fp_elementor_data_ids = Some [],
       fp_common_class_names = Some [], fp_script_hashes = Some [],
       fp_uses_wp_uploads = Some False, fp_uses_tinybird = Some False,
       fp_extracted_via = Some ''DNS_SSL_ONLY'', fp_error = None \<rparr>"

section \<open>Research mode\<close>

text \<open>
  The persisted records research mode owns, with the lists their schema prescribes. Only
  \<open>seed_urls\<close> is tested for presence by the code.
\<close>

record infrastructure =
  infra_ips :: "string list"
  infra_subnets :: "string list"

record cabal_profile =
  profile_name :: string
  created_at :: string
  seed_urls :: "string list option"
  infrastructure :: infrastructure
  profile_dna :: dna

record dna_entry =
  entry_url :: string
  entry_ip :: "string option"
  entry_subnet :: "string option"
  entry_dom_hash :: "string option"
  entry_css_vars :: "(string \<times> string) list"
  entry_elementor_data_ids :: "string list"
  entry_common_class_names :: "string list"
  entry_script_hashes :: "string list"
  uses_wordpress :: bool
  uses_tinybird :: bool
  entry_ssl_info :: "ssl_field option"
  fingerprinted_at :: string

record target_watchlist =
  watch_ips :: "string list"
  watch_subnets :: "string list"
  fingerprints :: "dna_entry list"

text \<open>
  The \<open>ResearchMode\<close> object: the watchlist, the profile and the ledger of researched
  URLs in memory, the three files they are saved to (\<open>None\<close>: not written yet), and the
  log of the URLs handed to \<open>scraper.fingerprintSite\<close>.
\<close>

record research =
  research_watchlist :: target_watchlist
  research_profile :: cabal_profile
  researchedURLs :: "string list"
  watchlistFile :: "target_watchlist option"
  profileFile :: "cabal_profile option"
  researchedFile :: "string option"
  fetched :: "string list"

text \<open>
  The outside world of research mode: the site behind each URL, the scraper's remote
  endpoint, the time, and whether \<open>fs.writeFileSync\<close> succeeds (its exception is caught
  and logged by each \<open>save\<close> function).
\<close>

record world =
  siteOf :: "string \<Rightarrow> site"
  remoteBrowserEndpoint :: "string option"
  now :: string
  writable :: bool

definition orEmpty :: "'a list option \<Rightarrow> 'a list" where
  "orEmpty xs = (case xs of None \<Rightarrow> [] | Some l \<Rightarrow> l)"

definition truthyOpt :: "string option \<Rightarrow> bool" where
  "truthyOpt x = (case x of None \<Rightarrow> False | Some v \<Rightarrow> truthy v)"

text \<open>\<open>array.join('\n')\<close>\<close>

fun joinLines :: "string list \<Rightarrow> string" where
  "joinLines [] = []"
| "joinLines [x] = x"
| "joinLines (x # y # ys) = x @ [CHR 0x0A] @ joinLines (y # ys)"

text \<open>
  \<open>profileURL\<close>: fingerprint the site; give up when the result carries an error;
  otherwise build the DNA entry and merge its facts into the profile's deep DNA, each
  list as a set (\<open>includes\<close> before \<open>push\<close>).
\<close>

definition mergeDNA :: "fingerprint \<Rightarrow> dna_entry \<Rightarrow> dna \<Rightarrow> dna" where
  "mergeDNA fp dnaEntry g =
     (let g1 = (case entry_ssl_info dnaEntry of
                  Some (SslInfo i) \<Rightarrow>
                    g\<lparr> ssl_issuers := addUnique (issuer_organization i) (ssl_issuers g) \<rparr>
                | _ \<Rightarrow> g);
          g2 = g1\<lparr> css_variables :=
                      fold addUnique (map fst (entry_css_vars dnaEntry)) (css_variables g1) \<rparr>;
          g3 = g2\<lparr> script_hashes :=
                      fold addUnique (entry_script_hashes dnaEntry) (script_hashes g2) \<rparr>;
          g4 = (case entry_dom_hash dnaEntry of
                  None \<Rightarrow> g3
                | Some h \<Rightarrow> if truthy h then g3\<lparr> dom_hashes := addUnique h (dom_hashes g3) \<rparr>
                            else g3);
          g5 = g4\<lparr> elementor_data_ids :=
                      fold addUnique (entry_elementor_data_ids dnaEntry) (elementor_data_ids g4) \<rparr>;
          g6 = g5\<lparr> common_class_names :=
                      fold addUnique (entry_common_class_names dnaEntry) (common_class_names g5) \<rparr>
      in if fp_uses_tinybird fp = Some True
         then g6\<lparr> tracking_scripts := addUnique ''flock.js'' (tracking_scripts g6) \<rparr>
         else g6)"

definition profileURL :: "world \<Rightarrow> string \<Rightarrow> research \<Rightarrow> dna_entry option \<times> research" where
  "profileURL w u s =
     (let fp = fst (fingerprintSite (remoteBrowserEndpoint w) (siteOf w u) u);
          s1 = s\<lparr> fetched := fetched s @ [u] \<rparr>
      in if truthyOpt (fp_error fp) then (None, s1)
         else
           (let ip = fp_ip fp;
                subnet = (if truthyOpt ip then extractSubnet (the ip) else None);
                dnaEntry =
                  \<lparr> entry_url = u,
                    entry_ip = ip,
                    entry_subnet = subnet,
                    entry_dom_hash = (if truthyOpt (fp_dom_hash fp)
                                      then fp_dom_hash fp else None),
                    entry_css_vars = orEmpty (fp_css_vars fp),
                    entry_elementor_data_ids = orEmpty (fp_elementor_data_ids fp),
                    entry_common_class_names = orEmpty (fp_common_class_names fp),
                    entry_script_hashes = orEmpty (fp_script_hashes fp),
                    uses_wordpress = (fp_uses_wp_uploads fp = Some True),
                    uses_tinybird = (fp_uses_tinybird fp = Some True),
                    entry_ssl_info = fp_ssl fp,
                    fingerprinted_at = now w \<rparr>;
                p = research_profile s1
            in (Some dnaEntry,
                s1\<lparr> research_profile :=
                      p\<lparr> profile_dna := mergeDNA fp dnaEntry (profile_dna p) \<rparr> \<rparr>)))"

text \<open>\<open>saveResearchedURL\<close>, \<open>saveWatchlist\<close>, \<open>saveProfile\<close>\<close>

definition saveResearchedURL :: "world \<Rightarrow> string \<Rightarrow> research \<Rightarrow> research" where
  "saveResearchedURL w u s =
     (if u \<in> set (researchedURLs s) then s
      else
        (let s1 = s\<lparr> researchedURLs := researchedURLs s @ [u] \<rparr>
         in if writable w then s1\<lparr> researchedFile := Some (joinLines (researchedURLs s1)) \<rparr>
            else s1))"

definition saveWatchlist :: "world \<Rightarrow> research \<Rightarrow> research" where
  "saveWatchlist w s =
     (if writable w then s\<lparr> watchlistFile := Some (research_watchlist s) \<rparr> else s)"

definition saveProfile :: "world \<Rightarrow> research \<Rightarrow> research" where
  "saveProfile w s =
     (let s1 = s\<lparr> research_profile := (research_profile s)\<lparr> created_at := now w \<rparr> \<rparr>
      in if writable w then s1\<lparr> profileFile := Some (research_profile s1) \<rparr> else s1)"

text \<open>
  The body of the loop of \<open>profileSeedURLs\<close> after a successful \<open>profileURL\<close>: extend the
  watchlist, the seed URLs and the infrastructure, then mark the URL as researched.
\<close>

definition addTruthy :: "string option \<Rightarrow> string list \<Rightarrow> string list" where
  "addTruthy x xs = (if truthyOpt x then addUnique (the x) xs else xs)"

definition track :: "world \<Rightarrow> string \<Rightarrow> dna_entry \<Rightarrow> research \<Rightarrow> research" where
  "track w u dnaEntry s =
     (let wl = research_watchlist s;
          wl1 = wl\<lparr> watch_ips := addTruthy (entry_ip dnaEntry) (watch_ips wl),
                    watch_subnets := addTruthy (entry_subnet dnaEntry) (watch_subnets wl),
                    fingerprints := fingerprints wl @ [dnaEntry] \<rparr>;
          p = research_profile s;
          inf = infrastructure p;
          p1 = p\<lparr> seed_urls := Some (addUnique u (orEmpty (seed_urls p))),
                  infrastructure :=
                    inf\<lparr> infra_ips := addTruthy (entry_ip dnaEntry) (infra_ips inf),
                         infra_subnets := addTruthy (entry_subnet dnaEntry) (infra_subnets inf) \<rparr> \<rparr>
      in saveResearchedURL w u (s\<lparr> research_watchlist := wl1, research_profile := p1 \<rparr>))"

fun profileLoop :: "world \<Rightarrow> string list \<Rightarrow> research \<Rightarrow> research" where
  "profileLoop w [] s = s"
| "profileLoop w (u # us) s =
     (case profileURL w u s of
        (None, s1) \<Rightarrow> profileLoop w us s1
      | (Some dnaEntry, s1) \<Rightarrow> profileLoop w us (track w u dnaEntry s1))"

definition profileSeedURLs :: "world \<Rightarrow> string list \<Rightarrow> research \<Rightarrow> research" where
  "profileSeedURLs w urls s =
     (let s0 = s\<lparr> research_profile :=
                    (research_profile s)\<lparr> seed_urls := Some (orEmpty (seed_urls (research_profile s))) \<rparr> \<rparr>;
          newURLs = filter (\<lambda>url. url \<notin> set (researchedURLs s0)) urls
      in if newURLs = [] then s0
         else saveProfile w (saveWatchlist w (profileLoop w newURLs s0)))"

text \<open>A research state and world for the scenarios: one seed URL, already researched.\<close>

definition demoResearch :: research where
  "demoResearch =
     \<lparr> research_watchlist =
         \<lparr> watch_ips = [''159.198.65.253''], watch_subnets = [''159.198.65.0/24''],
           fingerprints = [] \<rparr>,
       research_profile =
         \<lparr> profile_name = ''Cabal DNA Profile'', created_at = ''2026-01-01T00:00:00.000Z'',
           seed_urls = Some [''https://thewhitewhale.fun''],
           infrastructure = \<lparr> infra_ips = [''159.198.65.253''],
                              infra_subnets = [''159.198.65.0/24''] \<rparr>,
           profile_dna = \<lparr> ssl_issuers = [''Sectigo''], css_variables = [], script_hashes = [],
             dom_hashes = [], elementor_data_ids = [], common_class_names = [],
             tracking_scripts = [] \<rparr> \<rparr>,
       researchedURLs = [''https://thewhitewhale.fun''],
       watchlistFile = None, profileFile = None,
       researchedFile = Some ''https://thewhitewhale.fun'',
       fetched = [] \<rparr>"

definition demoWorld :: world where
  "demoWorld =
     \<lparr> siteOf = (\<lambda>u. staticSite), remoteBrowserEndpoint = None,
       now = ''2026-02-02T00:00:00.000Z'', writable = True \<rparr>"

text \<open>
  The backoff the documentation announces (1s, 2s, 4s, 8s, 16s, capped at 30s), as a
  function of the number of retries already made.
\<close>

definition backoff :: "nat \<Rightarrow> nat" where
  "backoff n = min (1000 * 2 ^ n) 30000"

text \<open>
  The three kinds of state a connection is in after \<open>n\<close> closes in a row: a socket
  exists and has not closed (\<open>trying\<close>); the socket has closed and the \<open>n\<close>-th retry is
  scheduled (\<open>waiting\<close>); the socket has closed and nothing is scheduled (\<open>exhausted\<close>).
\<close>

definition trying :: "nat \<Rightarrow> nat \<Rightarrow> connection \<Rightarrow> bool" where
  "trying maxRetries n c =
     (reconnectTimer c = None
      \<and> (ws c = Some CONNECTING \<or> ws c = Some OPEN \<or> ws c = Some CLOSING)
      \<and> n \<le> maxRetries \<and> retryCount c = n \<and> retryDelay c = backoff n)"

definition waiting :: "nat \<Rightarrow> nat \<Rightarrow> connection \<Rightarrow> bool" where
  "waiting maxRetries n c =
     (ws c = Some CLOSED \<and> \<not> pingInterval c \<and> \<not> stallCheckInterval c
      \<and> 1 \<le> n \<and> n \<le> maxRetries \<and> reconnectTimer c = Some (backoff (n - 1))
      \<and> retryCount c = n \<and> retryDelay c = backoff (n - 1))"

definition exhausted :: "nat \<Rightarrow> nat \<Rightarrow> connection \<Rightarrow> bool" where
  "exhausted maxRetries n c =
     (ws c = Some CLOSED \<and> \<not> pingInterval c \<and> \<not> stallCheckInterval c
      \<and> reconnectTimer c = None \<and> n = Suc maxRetries \<and> retryCount c = maxRetries)"

text \<open>Every reachable connection is in one of the three.\<close>

definition connInv :: "nat \<Rightarrow> nat \<Rightarrow> connection \<Rightarrow> bool" where
  "connInv maxRetries n c =
     (trying maxRetries n c \<or> waiting maxRetries n c \<or> exhausted maxRetries n c)"

text \<open>
  The heartbeat frame of the wire protocol, \<open>{ "message_type": "heartbeat" }\<close>, and a
  frame of heartbeat type that carries a certificate all the same.
\<close>

definition heartbeat :: message where
  "heartbeat = Json (Some ''heartbeat'') None"

definition loadedHeartbeat :: message where
  "loadedHeartbeat =
     Json (Some ''heartbeat'')
       (Some \<lparr> leaf = Some \<lparr> subject_CN = Some ''whitecat.fun'', subjectAltName = None,
           all_domains = None, issuer = None, not_before = None, not_after = None \<rparr> \<rparr>)"

text \<open>A certificate frame for \<open>a.xyz\<close>, a name that matches a pattern and does not resolve.\<close>

definition patternFrame :: message where
  "patternFrame =
     Json (Some ''certificate_update'')
       (Some \<lparr> leaf = Some \<lparr> subject_CN = Some ''a.xyz'', subjectAltName = None,
           all_domains = None, issuer = None, not_before = None, not_after = None \<rparr> \<rparr>)"

text \<open>
  \<open>issuerOrg\<close> is a member of the profile's \<open>sslIssuers\<close>: there is a profile with its
  deep DNA, the certificate names an issuer organisation, and the list holds it.
\<close>

definition issuerInProfile :: "config \<Rightarrow> cert_data \<Rightarrow> bool" where
  "issuerInProfile cfg certData =
     (case profileOf cfg of
        None \<Rightarrow> False
      | Some p \<Rightarrow>
          (case deep_dna p of
             None \<Rightarrow> False
           | Some g \<Rightarrow>
               (case issuerOf certData of
                  None \<Rightarrow> False
                | Some i \<Rightarrow> i \<in> set (ssl_issuers g))))"

definition verdicts :: "alert list \<Rightarrow> (string \<times> string) list" where
  "verdicts as = map (\<lambda>a. (matchType a, confidence a)) as"

text \<open>
  The shape every alert is meant to have: one of the three match types, \<open>CRITICAL\<close>
  exactly for \<open>IP_MATCH\<close>, \<open>MEDIUM\<close> otherwise.
\<close>

definition wellFormedAlert :: "alert \<Rightarrow> bool" where
  "wellFormedAlert a =
     ((matchType a = ''IP_MATCH'' \<or> matchType a = ''SSL_ISSUER_MATCH''
         \<or> matchType a = ''PATTERN_MATCH'')
      \<and> (confidence a = ''CRITICAL'') = (matchType a = ''IP_MATCH'')
      \<and> (matchType a = ''IP_MATCH'' \<or> confidence a = ''MEDIUM''))"

section \<open>A concrete scenario\<close>

text \<open>
  The scenario of the specification: the watchlist holds \<open>159.198.65.253\<close> and its /24,
  \<open>whitecat.fun\<close> resolves to \<open>159.198.65.100\<close>, no other name resolves. The patterns
  \<open>/\.fun$/\<close> and \<open>/\.xyz$/\<close> of the constructor's default list are suffix tests.
\<close>

definition endsWith :: "string \<Rightarrow> string \<Rightarrow> bool" where
  "endsWith s suf = (length suf \<le> length s \<and> drop (length s - length suf) s = suf)"

definition demoWatchlist :: watchlist where
  "demoWatchlist = \<lparr> ips = Some [''159.198.65.253''], subnets = Some [''159.198.65.0/24''] \<rparr>"

definition demoProfile :: profile where
  "demoProfile =
     \<lparr> deep_dna = Some \<lparr> ssl_issuers = [''Sectigo''], css_variables = [], script_hashes = [],
         dom_hashes = [], elementor_data_ids = [], common_class_names = [],
         tracking_scripts = [] \<rparr> \<rparr>"

definition demoConfig :: config where
  "demoConfig =
     \<lparr> watchlistOf = Some demoWatchlist, profileOf = Some demoProfile,
       domainPatterns = [\<lambda>d. endsWith d ''.fun'', \<lambda>d. endsWith d ''.xyz''] \<rparr>"

definition demoEnv :: env where
  "demoEnv =
     \<lparr> resolve4 = (\<lambda>n d. if d = ''whitecat.fun'' then Some [''159.198.65.100''] else None),
       clock = (\<lambda>n. ''2026-01-01T00:00:00.000Z'') \<rparr>"

definition demoCert :: "string \<Rightarrow> cert_data" where
  "demoCert org =
     \<lparr> leaf = Some \<lparr> subject_CN = None, subjectAltName = None, all_domains = None,
         issuer = Some \<lparr> issuer_O = Some org \<rparr>, not_before = Some 1, not_after = Some 2 \<rparr> \<rparr>"

section \<open>Properties\<close>

lemmas demo_defs =
  endsWith_def newListener_def demoWatchlist_def demoProfile_def demoConfig_def demoEnv_def
  demoCert_def startsWith_def

lemmas eval_defs =
  demo_defs newAlerts_def processDomain_def raise_def mkAlert_def Let_def lookupIP_def
  isWatchedIP_def truthy_def isIPWatched_def subnetOfParts_def matchesPatterns_def
  performDeepDNAMatch_def issuerOf_def alertIssuer_def verdicts_def issuerInProfile_def

lemma split_on_nonempty: "split_on sep s \<noteq> []"
  by (induction s) (auto split: list.splits)

lemma split_on_no_sep: "sep \<notin> set w \<Longrightarrow> split_on sep w = [w]"
  by (induction w) auto

lemma split_on_append:
  "sep \<notin> set x \<Longrightarrow> split_on sep (x @ sep # r) = x # split_on sep r"
  by (induction x) auto

subsection \<open>Subnet derivation\<close>

text \<open>
  Claim C8. For an address \<open>x.y.z.w\<close> of four dot-separated octets (no octet contains a
  dot), \<open>extractSubnet\<close> returns exactly \<open>x.y.z.0/24\<close>: the result does not depend on
  the fourth octet.
\<close>

theorem C8_extractSubnet:
  assumes "CHR ''.'' \<notin> set x" and "CHR ''.'' \<notin> set y"
    and "CHR ''.'' \<notin> set z" and "CHR ''.'' \<notin> set w"
  shows "extractSubnet (x @ ''.'' @ y @ ''.'' @ z @ ''.'' @ w)
           = Some (x @ ''.'' @ y @ ''.'' @ z @ ''.0/24'')"
  using assms
  by (simp add: extractSubnet_def subnetOfParts_def split_on_append split_on_no_sep)

theorem C8_extractSubnet_witness:
  "extractSubnet ''159.198.65.253'' = Some ''159.198.65.0/24''"
  using C8_extractSubnet [of "''159''" "''198''" "''65''" "''253''"] by simp

subsection \<open>Filtering\<close>

lemma processDomains_append:
  "processDomains cfg e (xs @ ys) certData s
     = processDomains cfg e ys certData (processDomains cfg e xs certData s)"
  by (induction xs arbitrary: s) auto

text \<open>
  Claim C9. A domain that is the empty string or begins with \<open>*.\<close> is skipped before any
  classification step. Wherever it stands in the list handed to \<open>processDomains\<close>, the
  resulting listener state is the one obtained without it: the same DNS queries, the
  same alerts, the same seen-set and counters.
\<close>

theorem C9_filtered_domains_skipped:
  assumes "d = [] \<or> startsWith d ''*.''"
  shows "processDomains cfg e (pre @ d # post) certData s
           = processDomains cfg e (pre @ post) certData s"
  using assms by (auto simp add: processDomains_append processDomain_def)

theorem C9_filtered_domains_skipped_witness:
  "startsWith ''*.whitecat.fun'' ''*.''
   \<and> processDomains demoConfig demoEnv ([''a.xyz''] @ ''*.whitecat.fun'' # [''whitecat.fun''])
        (demoCert ''Sectigo'') (newListener [])
     = processDomains demoConfig demoEnv ([''a.xyz''] @ [''whitecat.fun''])
        (demoCert ''Sectigo'') (newListener [])"
  using C9_filtered_domains_skipped [of "''*.whitecat.fun''" demoConfig demoEnv "[''a.xyz'']"
      "[''whitecat.fun'']" "demoCert ''Sectigo''" "newListener []"]
  by (simp add: startsWith_def)

subsection \<open>Subnet match\<close>

lemma dotted_truthy: "truthy (x @ ''.'' @ r)"
  by (simp add: truthy_def)

lemma isIPWatched_subnet:
  assumes "CHR ''.'' \<notin> set x" "CHR ''.'' \<notin> set y" "CHR ''.'' \<notin> set z" "CHR ''.'' \<notin> set w"
    and "watchlistOf cfg = Some wl" and "subnets wl = Some sl"
    and "x @ ''.'' @ y @ ''.'' @ z @ ''.0/24'' \<in> set sl"
  shows "isIPWatched cfg (x @ ''.'' @ y @ ''.'' @ z @ ''.'' @ w)"
  using assms
  by (simp add: isIPWatched_def subnetOfParts_def split_on_append split_on_no_sep
        split: option.splits)

text \<open>
  Claim C4. A domain that passes the filter and resolves to an address \<open>x.y.z.w\<close> whose
  /24, \<open>x.y.z.0/24\<close>, is an entry of the watchlist's subnets yields exactly one new alert,
  for that domain and address, with matchType \<open>IP_MATCH\<close> and confidence \<open>CRITICAL\<close>.
  Nothing is assumed about the watchlist's \<open>ips\<close>: the address need not be listed there
  (in the witness it is not).
\<close>

theorem C4_subnet_match_is_ip_match:
  assumes octets: "CHR ''.'' \<notin> set x" "CHR ''.'' \<notin> set y" "CHR ''.'' \<notin> set z" "CHR ''.'' \<notin> set w"
    and kept: "d \<noteq> []" "\<not> startsWith d ''*.''"
    and resolves: "resolve4 e (length (dnsQueries s)) d
                     = Some ((x @ ''.'' @ y @ ''.'' @ z @ ''.'' @ w) # others)"
    and wl: "watchlistOf cfg = Some wl"
    and sub: "subnets wl = Some sl" "x @ ''.'' @ y @ ''.'' @ z @ ''.0/24'' \<in> set sl"
  shows "\<exists>a. emitted (processDomains cfg e [d] certData s) = emitted s @ [a]
           \<and> domain a = d \<and> ip a = Some (x @ ''.'' @ y @ ''.'' @ z @ ''.'' @ w)
           \<and> matchType a = ''IP_MATCH'' \<and> confidence a = ''CRITICAL''"
proof -
  have "isIPWatched cfg (x @ ''.'' @ y @ ''.'' @ z @ ''.'' @ w)"
    using octets wl sub by (rule isIPWatched_subnet)
  then show ?thesis
    using kept resolves dotted_truthy [of x "y @ ''.'' @ z @ ''.'' @ w"]
    by (simp add: processDomain_def lookupIP_def isWatchedIP_def raise_def mkAlert_def Let_def)
qed

theorem C4_subnet_match_is_ip_match_witness:
  "''159.198.65.100'' \<notin> set (the (ips demoWatchlist))
   \<and> (\<exists>a. emitted (processDomains demoConfig demoEnv [''whitecat.fun''] (demoCert ''Sectigo'')
               (newListener [])) = [a]
          \<and> domain a = ''whitecat.fun'' \<and> ip a = Some ''159.198.65.100''
          \<and> matchType a = ''IP_MATCH'' \<and> confidence a = ''CRITICAL'')"
  using C4_subnet_match_is_ip_match [of "''159''" "''198''" "''65''" "''100''" "''whitecat.fun''"
      demoEnv "newListener []" "[]" demoConfig demoWatchlist "[''159.198.65.0/24'']"
      "demoCert ''Sectigo''"]
  by (simp add: demo_defs)

subsection \<open>The shape of alerts\<close>

lemma performDeepDNAMatch_cases:
  assumes "performDeepDNAMatch cfg d certData = Some (mt, conf, details)"
  shows "(mt = ''SSL_ISSUER_MATCH'' \<or> mt = ''PATTERN_MATCH'') \<and> conf = ''MEDIUM''"
  using assms by (auto simp add: performDeepDNAMatch_def split: option.splits if_splits)

lemma processDomain_emitted:
  "\<exists>new. emitted (processDomain cfg e certData d s) = emitted s @ new
      \<and> (\<forall>a\<in>set new. wellFormedAlert a \<and> domain a = d)"
proof (cases "performDeepDNAMatch cfg d certData")
  case None
  then show ?thesis
    by (simp add: processDomain_def raise_def mkAlert_def wellFormedAlert_def Let_def)
next
  case (Some m)
  obtain mt conf details where m: "m = (mt, conf, details)" by (cases m) auto
  from Some m performDeepDNAMatch_cases [of cfg d certData mt conf details]
  have "(mt = ''SSL_ISSUER_MATCH'' \<or> mt = ''PATTERN_MATCH'') \<and> conf = ''MEDIUM''" by simp
  with Some m show ?thesis
    by (auto simp add: processDomain_def raise_def mkAlert_def wellFormedAlert_def Let_def)
qed

lemma processDomains_emitted:
  "\<exists>new. emitted (processDomains cfg e ds certData s) = emitted s @ new
      \<and> (\<forall>a\<in>set new. wellFormedAlert a \<and> domain a \<in> set ds)"
proof (induction ds arbitrary: s)
  case Nil
  show ?case by simp
next
  case (Cons d ds)
  obtain n1 where n1: "emitted (processDomain cfg e certData d s) = emitted s @ n1"
      "\<forall>a\<in>set n1. wellFormedAlert a \<and> domain a = d"
    using processDomain_emitted [of cfg e certData d s] by blast
  obtain n2 where n2:
      "emitted (processDomains cfg e ds certData (processDomain cfg e certData d s))
         = emitted (processDomain cfg e certData d s) @ n2"
      "\<forall>a\<in>set n2. wellFormedAlert a \<and> domain a \<in> set ds"
    using Cons.IH [of "processDomain cfg e certData d s"] by blast
  have "emitted (processDomains cfg e (d # ds) certData s) = emitted s @ (n1 @ n2)"
    using n1 n2 by simp
  moreover have "\<forall>a\<in>set (n1 @ n2). wellFormedAlert a \<and> domain a \<in> set (d # ds)"
    using n1 n2 by auto
  ultimately show ?case by blast
qed

text \<open>
  Claim C10. Every alert a call of \<open>processDomains\<close> emits has matchType \<open>IP_MATCH\<close>,
  \<open>SSL_ISSUER_MATCH\<close> or \<open>PATTERN_MATCH\<close>; its confidence is \<open>CRITICAL\<close> exactly when the
  matchType is \<open>IP_MATCH\<close>, and \<open>MEDIUM\<close> in the other two cases.
\<close>

theorem C10_alert_types_and_confidence:
  "\<forall>a \<in> set (newAlerts s (processDomains cfg e ds certData s)).
      (matchType a = ''IP_MATCH'' \<or> matchType a = ''SSL_ISSUER_MATCH''
         \<or> matchType a = ''PATTERN_MATCH'')
      \<and> (confidence a = ''CRITICAL'') = (matchType a = ''IP_MATCH'')
      \<and> (matchType a \<noteq> ''IP_MATCH'' \<longrightarrow> confidence a = ''MEDIUM'')"
proof -
  obtain new where "emitted (processDomains cfg e ds certData s) = emitted s @ new"
     and "\<forall>a\<in>set new. wellFormedAlert a \<and> domain a \<in> set ds"
    using processDomains_emitted [of cfg e ds certData s] by blast
  then show ?thesis by (auto simp add: newAlerts_def wellFormedAlert_def)
qed

theorem C10_alert_types_and_confidence_witness:
  "map (\<lambda>a. (matchType a, confidence a))
     (newAlerts (newListener [])
        (processDomains demoConfig demoEnv [''whitecat.fun'', ''a.xyz''] (demoCert ''Sectigo'')
           (newListener [])))
   = [(''IP_MATCH'', ''CRITICAL''), (''SSL_ISSUER_MATCH'', ''MEDIUM'')]"
  using C10_alert_types_and_confidence [of "newListener []" demoConfig demoEnv
      "[''whitecat.fun'', ''a.xyz'']" "demoCert ''Sectigo''"]
  by (simp add: demo_defs newAlerts_def processDomain_def raise_def mkAlert_def Let_def
        lookupIP_def isWatchedIP_def truthy_def isIPWatched_def subnetOfParts_def matchesPatterns_def
        performDeepDNAMatch_def issuerOf_def alertIssuer_def)

subsection \<open>Priority of the rules\<close>

lemma performDeepDNAMatch_table:
  "matchesPatterns cfg d \<Longrightarrow>
   map_option (\<lambda>(mt, conf, details). (mt, conf)) (performDeepDNAMatch cfg d certData)
     = (if issuerInProfile cfg certData then Some (''SSL_ISSUER_MATCH'', ''MEDIUM'')
        else case profileOf cfg of None \<Rightarrow> None | Some p \<Rightarrow>
           (case deep_dna p of None \<Rightarrow> None | Some g \<Rightarrow> Some (''PATTERN_MATCH'', ''MEDIUM'')))"
  by (auto simp add: performDeepDNAMatch_def issuerInProfile_def split: option.splits)

text \<open>
  Claim C2, as amended. For a domain that passes the filter, the verdict of one
  classification is: \<open>IP_MATCH\<close>/\<open>CRITICAL\<close> when the resolved address is watched;
  otherwise, only when the domain matches a naming pattern and is not in the seen-set,
  \<open>SSL_ISSUER_MATCH\<close>/\<open>MEDIUM\<close> when the issuer organisation is a member of the profile's
  SSL issuers and \<open>PATTERN_MATCH\<close>/\<open>MEDIUM\<close> when it is not; and no alert in every
  other case. So the issuer rule comes before the pattern rule, but it is consulted only
  for domains that match a pattern: \<open>processDomains\<close> calls \<open>performDeepDNAMatch\<close> behind
  the test \<open>matchesPattern && !this.knownCabalDomains.has(domain)\<close>.
\<close>

theorem C2_priority_order_amended:
  assumes kept: "d \<noteq> []" "\<not> startsWith d ''*.''"
  shows "verdicts (newAlerts s (processDomains cfg e [d] certData s)) =
     (if isWatchedIP cfg (lookupIP e s d) then [(''IP_MATCH'', ''CRITICAL'')]
      else if matchesPatterns cfg d \<and> d \<notin> knownCabalDomains s then
        (if issuerInProfile cfg certData then [(''SSL_ISSUER_MATCH'', ''MEDIUM'')]
         else [(''PATTERN_MATCH'', ''MEDIUM'')])
      else [])"
proof (cases "matchesPatterns cfg d")
  case False
  with kept show ?thesis
    by (simp add: processDomain_def raise_def mkAlert_def Let_def newAlerts_def verdicts_def)
next
  case True
  from performDeepDNAMatch_table [OF True, of certData] True kept show ?thesis
    by (auto simp add: processDomain_def raise_def mkAlert_def Let_def newAlerts_def verdicts_def
          split: option.splits if_splits)
qed

theorem C2_priority_order_amended_witness:
  "issuerInProfile demoConfig (demoCert ''Sectigo'')
   \<and> verdicts (newAlerts (newListener [])
        (processDomains demoConfig demoEnv [''a.xyz''] (demoCert ''Sectigo'') (newListener [])))
     = [(''SSL_ISSUER_MATCH'', ''MEDIUM'')]"
  using C2_priority_order_amended [of "''a.xyz''" "newListener []" demoConfig demoEnv "demoCert ''Sectigo''"]
  by (simp add: eval_defs)

text \<open>
  Claim C2 as stated fails: \<open>shop.example.com\<close> passes the filter, does not resolve (so
  does not match by IP) and its certificate's issuer is a member of the profile's SSL
  issuers, yet no alert is produced, because the name matches no pattern.
\<close>

theorem C2_issuer_without_pattern_counterexample:
  "\<not> startsWith ''shop.example.com'' ''*.'' \<and> ''shop.example.com'' \<noteq> []
   \<and> issuerInProfile demoConfig (demoCert ''Sectigo'')
   \<and> \<not> isWatchedIP demoConfig (lookupIP demoEnv (newListener []) ''shop.example.com'')
   \<and> newAlerts (newListener [])
        (processDomains demoConfig demoEnv [''shop.example.com''] (demoCert ''Sectigo'') (newListener [])) = []"
  by (simp add: eval_defs)

subsection \<open>Re-alerting\<close>

text \<open>
  Claim C1 at a concrete input. \<open>whitecat.fun\<close> is observed twice, with two different
  certificates, and resolves to a watched address both times. The first call alerts and
  puts the domain into the seen-set; the second call alerts again: the \<open>IP_MATCH\<close> branch
  adds to \<open>knownCabalDomains\<close> but, unlike the pattern branch, never consults it.
\<close>

theorem C1_reobserved_ip_match_alerts_again:
  "''whitecat.fun'' \<in> knownCabalDomains
       (processDomains demoConfig demoEnv [''whitecat.fun''] (demoCert ''Sectigo'') (newListener []))
   \<and> map (\<lambda>a. (domain a, matchType a))
       (emitted (processDomains demoConfig demoEnv [''whitecat.fun''] (demoCert ''Namecheap'')
          (processDomains demoConfig demoEnv [''whitecat.fun''] (demoCert ''Sectigo'') (newListener []))))
     = [(''whitecat.fun'', ''IP_MATCH''), (''whitecat.fun'', ''IP_MATCH'')]"
  by (simp add: eval_defs)

text \<open>
  What the seen-set does guarantee: a domain in it never leaves it, and every later alert
  for it is an \<open>IP_MATCH\<close>; the pattern and issuer rules are blocked.
\<close>

lemma processDomain_known_mono:
  "knownCabalDomains s \<subseteq> knownCabalDomains (processDomain cfg e certData d s)"
  by (auto simp add: processDomain_def raise_def Let_def split: option.splits)

lemma processDomain_seen_only_ip:
  assumes "x \<in> knownCabalDomains s"
  shows "\<forall>a\<in>set (newAlerts s (processDomain cfg e certData d s)). domain a = x \<longrightarrow> matchType a = ''IP_MATCH''"
  using assms
  by (auto simp add: processDomain_def raise_def mkAlert_def Let_def newAlerts_def split: option.splits)

lemma newAlerts_trans:
  assumes "emitted s1 = emitted s @ n1" "emitted s2 = emitted s1 @ n2"
  shows "newAlerts s s2 = newAlerts s s1 @ newAlerts s1 s2"
  using assms by (simp add: newAlerts_def)

lemma seen_domain_only_ip_alerts:
  assumes "x \<in> knownCabalDomains s"
  shows "\<forall>a\<in>set (newAlerts s (processDomains cfg e ds certData s)). domain a = x \<longrightarrow> matchType a = ''IP_MATCH''"
  using assms
proof (induction ds arbitrary: s)
  case Nil
  show ?case by (simp add: newAlerts_def)
next
  case (Cons d ds)
  let ?s1 = "processDomain cfg e certData d s"
  obtain n1 where n1: "emitted ?s1 = emitted s @ n1"
    using processDomain_emitted [of cfg e certData d s] by blast
  obtain n2 where n2: "emitted (processDomains cfg e ds certData ?s1) = emitted ?s1 @ n2"
    using processDomains_emitted [of cfg e ds certData ?s1] by blast
  have x1: "x \<in> knownCabalDomains ?s1"
    using Cons.prems processDomain_known_mono [of s cfg e certData d] by blast
  have split: "newAlerts s (processDomains cfg e (d # ds) certData s)
      = newAlerts s ?s1 @ newAlerts ?s1 (processDomains cfg e ds certData ?s1)"
    using newAlerts_trans [OF n1 n2] by simp
  show ?case
    unfolding split
    using processDomain_seen_only_ip [OF Cons.prems, of cfg e certData d] Cons.IH [OF x1]
    by auto
qed

subsection \<open>Reconnection\<close>

lemma backoff_Suc: "min (backoff n * 2) 30000 = backoff (Suc n)"
  by (simp add: backoff_def min_def)

lemma backoff_pred: "Suc 0 \<le> n \<Longrightarrow> min (backoff (n - Suc 0) * 2) 30000 = backoff n"
  using backoff_Suc [of "n - Suc 0"] by simp

lemma connInv_connect: "connInv maxRetries 0 connect"
  by (simp add: connInv_def trying_def connect_def attemptConnection_def initialConnection_def
        backoff_def)

lemma step_connection:
  assumes "step maxRetries cfg e (l, c, ts) ev = Some (l', c', ts')"
  shows "enabled c ts ev
       \<and> c' = (case ev of
                 EvOpen \<Rightarrow> onOpen c
               | EvMessage m \<Rightarrow> c
               | EvPong \<Rightarrow> onPong c
               | EvError \<Rightarrow> onError c
               | EvClose \<Rightarrow> onClose maxRetries c
               | EvPingTick \<Rightarrow> onPingTick c
               | EvStallCheck \<Rightarrow> onStallCheck c
               | EvRetryTimer \<Rightarrow> onRetryTimer c
               | EvResume i \<Rightarrow> c)"
  using assms
  by (cases ev) (auto simp add: step_def split: if_splits prod.splits option.splits)

lemma step_connInv:
  assumes "step maxRetries cfg e (l, c, ts) ev = Some (l', c', ts')"
    and "connInv maxRetries n c"
  shows "connInv maxRetries (countClose n ev) c'"
proof -
  note sc = step_connection [OF assms(1)]
  show ?thesis
  proof (cases ev)
    case EvOpen
    with sc assms(2) show ?thesis
      by (auto simp add: connInv_def trying_def waiting_def exhausted_def enabled_def onOpen_def
            backoff_def)
  next
    case (EvMessage m)
    with sc assms(2) show ?thesis by simp
  next
    case EvPong
    with sc assms(2) show ?thesis
      by (auto simp add: connInv_def trying_def waiting_def exhausted_def enabled_def onPong_def)
  next
    case EvError
    with sc assms(2) show ?thesis
      by (auto simp add: connInv_def trying_def waiting_def exhausted_def enabled_def onError_def)
  next
    case EvClose
    with sc assms(2) show ?thesis
      by (auto simp add: connInv_def trying_def waiting_def exhausted_def enabled_def onClose_def
            Let_def)
  next
    case EvPingTick
    with sc assms(2) show ?thesis
      by (auto simp add: connInv_def trying_def waiting_def exhausted_def enabled_def
            onPingTick_def)
  next
    case EvStallCheck
    with sc assms(2) show ?thesis
      by (auto simp add: connInv_def trying_def waiting_def exhausted_def enabled_def
            onStallCheck_def terminate_def Let_def split: readyState.splits)
  next
    case EvRetryTimer
    with sc assms(2) show ?thesis
      by (auto simp add: connInv_def trying_def waiting_def exhausted_def enabled_def
            onRetryTimer_def attemptConnection_def backoff_pred)
  next
    case (EvResume i)
    with sc assms(2) show ?thesis by simp
  qed
qed

lemma run_snoc:
  "run maxRetries cfg e s (evs @ [ev]) =
     (case run maxRetries cfg e s evs of None \<Rightarrow> None | Some s' \<Rightarrow> step maxRetries cfg e s' ev)"
  by (induction evs arbitrary: s) (auto split: option.splits)

lemma closesSinceOpen_snoc:
  "closesSinceOpen (evs @ [ev]) = countClose (closesSinceOpen evs) ev"
  by (simp add: closesSinceOpen_def)

lemma run_connInv:
  assumes "run maxRetries cfg e (l0, connect, []) evs = Some (l, c, ts)"
  shows "connInv maxRetries (closesSinceOpen evs) c"
  using assms
proof (induction evs arbitrary: l c ts rule: rev_induct)
  case Nil
  then show ?case by (simp add: closesSinceOpen_def connInv_connect)
next
  case (snoc ev evs)
  from snoc.prems obtain l1 c1 ts1 where
      r: "run maxRetries cfg e (l0, connect, []) evs = Some (l1, c1, ts1)"
      and s: "step maxRetries cfg e (l1, c1, ts1) ev = Some (l, c, ts)"
    by (auto simp add: run_snoc split: option.splits)
  from step_connInv [OF s snoc.IH [OF r]] show ?case
    by (simp add: closesSinceOpen_snoc)
qed

lemma exhausted_frozen_step:
  assumes "exhausted maxRetries n c" and "step maxRetries cfg e (l, c, ts) ev = Some (l', c', ts')"
  shows "c' = c \<and> (\<exists>i. ev = EvResume i)"
  using step_connection [OF assms(2)] assms(1)
  by (cases ev) (auto simp add: exhausted_def enabled_def)

lemma exhausted_frozen_run:
  assumes "exhausted maxRetries n c" and "run maxRetries cfg e (l, c, ts) evs = Some (l', c', ts')"
  shows "c' = c"
  using assms(2)
proof (induction evs arbitrary: l ts)
  case Nil
  then show ?case by simp
next
  case (Cons ev evs)
  from Cons.prems obtain l1 c1 ts1 where
      s: "step maxRetries cfg e (l, c, ts) ev = Some (l1, c1, ts1)"
      and r: "run maxRetries cfg e (l1, c1, ts1) evs = Some (l', c', ts')"
    by (auto split: option.splits)
  from exhausted_frozen_step [OF assms(1) s] have "c1 = c" by simp
  with r Cons.IH show ?case by blast
qed

text \<open>
  Claim C3, as amended. Take any run of \<open>connect(maxRetries)\<close>: any sequence of events
  that can happen, errors, pongs, frames and timer ticks included, and let \<open>n\<close> be the
  number of closes in a row at its end (those since the last open, or since the start).
  Then the retry counter is \<open>min n maxRetries\<close>, and while \<open>n = 0\<close>, that is after
  \<open>connect()\<close> and after every open until the socket closes, the delay is 1s. When
  the run ends with a close, the retry scheduled by that close waits
  \<open>min(1s * 2^(n - 1), 30s)\<close> if \<open>n \<le> maxRetries\<close>: 1s after the first close in a
  row, 2s after the second, and so on; if \<open>n > maxRetries\<close> nothing is scheduled. A
  scheduled retry can fire and then creates exactly one new socket. Once
  \<open>n > maxRetries\<close>, nothing is scheduled and the connection record never changes
  again, whatever happens: only pending classification calls can still be resumed.
\<close>

theorem C3_backoff_amended:
  assumes "run maxRetries cfg e (l0, connect, []) evs = Some (l, c, ts)"
  shows "retryCount c = min (closesSinceOpen evs) maxRetries
       \<and> (closesSinceOpen evs = 0 \<longrightarrow> retryDelay c = 1000)
       \<and> (\<forall>pre. evs = pre @ [EvClose] \<longrightarrow>
             reconnectTimer c =
               (if closesSinceOpen evs \<le> maxRetries
                then Some (min (1000 * 2 ^ (closesSinceOpen evs - 1)) 30000) else None))
       \<and> (reconnectTimer c \<noteq> None \<longrightarrow>
             (\<exists>c'. step maxRetries cfg e (l, c, ts) EvRetryTimer = Some (l, c', ts)
                  \<and> ws c' = Some CONNECTING \<and> attempts c' = attempts c + 1
                  \<and> reconnectTimer c' = None))
       \<and> (maxRetries < closesSinceOpen evs \<longrightarrow>
             reconnectTimer c = None
             \<and> (\<forall>evs' l' c' ts'. run maxRetries cfg e (l, c, ts) evs' = Some (l', c', ts') \<longrightarrow>
                    c' = c \<and> (\<forall>ev \<in> set evs'. \<exists>i. ev = EvResume i)))"
proof -
  let ?n = "closesSinceOpen evs"
  have inv: "connInv maxRetries ?n c" using run_connInv [OF assms] .
  have A: "retryCount c = min ?n maxRetries"
    using inv by (auto simp add: connInv_def trying_def waiting_def exhausted_def)
  have B: "?n = 0 \<longrightarrow> retryDelay c = 1000"
    using inv by (auto simp add: connInv_def trying_def waiting_def exhausted_def backoff_def)
  have C: "\<forall>pre. evs = pre @ [EvClose] \<longrightarrow>
             reconnectTimer c =
               (if ?n \<le> maxRetries then Some (min (1000 * 2 ^ (?n - 1)) 30000) else None)"
  proof (intro allI impI)
    fix pre assume p: "evs = pre @ [EvClose]"
    from assms p obtain l1 c1 ts1 where
        s: "step maxRetries cfg e (l1, c1, ts1) EvClose = Some (l, c, ts)"
      by (auto simp add: run_snoc split: option.splits)
    from step_connection [OF s] have "ws c = Some CLOSED"
      by (simp add: onClose_def Let_def)
    with inv show "reconnectTimer c =
               (if ?n \<le> maxRetries then Some (min (1000 * 2 ^ (?n - 1)) 30000) else None)"
      by (auto simp add: connInv_def trying_def waiting_def exhausted_def backoff_def)
  qed
  have D: "reconnectTimer c \<noteq> None \<longrightarrow>
             (\<exists>c'. step maxRetries cfg e (l, c, ts) EvRetryTimer = Some (l, c', ts)
                  \<and> ws c' = Some CONNECTING \<and> attempts c' = attempts c + 1
                  \<and> reconnectTimer c' = None)"
    by (simp add: step_def enabled_def onRetryTimer_def attemptConnection_def)
  have E: "maxRetries < ?n \<longrightarrow>
             reconnectTimer c = None
             \<and> (\<forall>evs' l' c' ts'. run maxRetries cfg e (l, c, ts) evs' = Some (l', c', ts') \<longrightarrow>
                    c' = c \<and> (\<forall>ev \<in> set evs'. \<exists>i. ev = EvResume i))"
  proof
    assume "maxRetries < ?n"
    with inv have ex: "exhausted maxRetries ?n c"
      by (auto simp add: connInv_def trying_def waiting_def)
    have only: "\<forall>ev \<in> set evs'. \<exists>i. ev = EvResume i"
      if "run maxRetries cfg e (l, c, ts) evs' = Some (l', c', ts')" for evs' l' c' ts'
      using that
    proof (induction evs' arbitrary: l ts)
      case Nil
      then show ?case by simp
    next
      case (Cons ev evs')
      from Cons.prems obtain l1 c1 ts1 where
          s: "step maxRetries cfg e (l, c, ts) ev = Some (l1, c1, ts1)"
          and r: "run maxRetries cfg e (l1, c1, ts1) evs' = Some (l', c', ts')"
        by (auto split: option.splits)
      from exhausted_frozen_step [OF ex s] have "c1 = c" and "\<exists>i. ev = EvResume i" by simp_all
      with r Cons.IH show ?case by auto
    qed
    from ex exhausted_frozen_run [OF ex] only
    show "reconnectTimer c = None
             \<and> (\<forall>evs' l' c' ts'. run maxRetries cfg e (l, c, ts) evs' = Some (l', c', ts') \<longrightarrow>
                    c' = c \<and> (\<forall>ev \<in> set evs'. \<exists>i. ev = EvResume i))"
      by (auto simp add: exhausted_def)
  qed
  from A B C D E show ?thesis by blast
qed

lemmas conn_defs =
  step_def enabled_def onOpen_def onPong_def onError_def onClose_def onPingTick_def
  onStallCheck_def onRetryTimer_def attemptConnection_def terminate_def connect_def
  initialConnection_def receive_def settle_def Let_def

theorem C3_backoff_amended_witness:
  "closesSinceOpen [EvError, EvClose, EvRetryTimer, EvOpen, EvPong, EvClose, EvRetryTimer,
       EvError, EvClose] = 2
   \<and> map_option (reconnectTimer \<circ> fst \<circ> snd)
       (run 5 demoConfig demoEnv (newListener [], connect, [])
          [EvError, EvClose, EvRetryTimer, EvOpen, EvPong, EvClose, EvRetryTimer,
           EvError, EvClose]) = Some (Some 2000)
   \<and> map_option (reconnectTimer \<circ> fst \<circ> snd)
       (run 1 demoConfig demoEnv (newListener [], connect, [])
          [EvError, EvClose, EvRetryTimer, EvError, EvClose]) = Some None"
proof -
  obtain l c ts where r: "run 5 demoConfig demoEnv (newListener [], connect, [])
          [EvError, EvClose, EvRetryTimer, EvOpen, EvPong, EvClose, EvRetryTimer,
           EvError, EvClose] = Some (l, c, ts)"
    by (simp add: conn_defs)
  obtain l1 c1 ts1 where r1: "run 1 demoConfig demoEnv (newListener [], connect, [])
          [EvError, EvClose, EvRetryTimer, EvError, EvClose] = Some (l1, c1, ts1)"
    by (simp add: conn_defs)
  from C3_backoff_amended [OF r] have "reconnectTimer c = Some 2000"
    by (simp add: closesSinceOpen_def)
  moreover from C3_backoff_amended [OF r1] have "reconnectTimer c1 = None"
    by (simp add: closesSinceOpen_def)
  ultimately show ?thesis using r r1 by (simp add: closesSinceOpen_def)
qed

text \<open>
  Claim C3 as stated fails at the first failure of \<open>connect(1)\<close>: the attempt ends with
  an error and a close, which is one failure in a row and so \<open>maxRetries\<close> failures,
  and yet a retry is scheduled, with a delay of 1s, not \<open>min(1s * 2^1, 30s)\<close>.
\<close>

theorem C3_first_failure_counterexample:
  "map_option (reconnectTimer \<circ> fst \<circ> snd)
     (run 1 demoConfig demoEnv (newListener [], connect, []) [EvError, EvClose]) = Some (Some 1000)
   \<and> (1000::nat) \<noteq> min (1000 * 2 ^ 1) 30000"
  by (simp add: conn_defs)

subsection \<open>Heartbeat frames\<close>

lemma step_alive:
  assumes "step maxRetries cfg e (l, c, ts) ev = Some (l', c', ts')" and "isAlive c'" and "\<not> isAlive c"
  shows "ev = EvOpen \<or> ev = EvPong"
  using step_connection [OF assms(1)] assms(2,3)
  by (cases ev)
     (auto simp add: onError_def onClose_def onPingTick_def onStallCheck_def onRetryTimer_def
        attemptConnection_def Let_def split: if_splits)

lemma run_not_alive:
  assumes "run maxRetries cfg e (l, c, ts) evs = Some (l', c', ts')" and "\<not> isAlive c"
    and "EvOpen \<notin> set evs" and "EvPong \<notin> set evs"
  shows "\<not> isAlive c'"
  using assms
proof (induction evs arbitrary: l c ts)
  case Nil
  then show ?case by simp
next
  case (Cons ev evs)
  from Cons.prems(1) obtain l1 c1 ts1 where
      s: "step maxRetries cfg e (l, c, ts) ev = Some (l1, c1, ts1)"
      and r: "run maxRetries cfg e (l1, c1, ts1) evs = Some (l', c', ts')"
    by (auto split: option.splits)
  have "ev \<noteq> EvOpen" "ev \<noteq> EvPong" using Cons.prems(3,4) by auto
  with step_alive [OF s] Cons.prems(2) have "\<not> isAlive c1" by blast
  from Cons.IH [OF r this] Cons.prems(3,4) show ?case by simp
qed

text \<open>
  Claim C6, as amended. A frame of heartbeat type, and more generally any frame whose
  \<open>message_type\<close> is not \<open>certificate_update\<close>, whatever data it carries, changes the
  message counter and nothing else when it arrives on an open socket: no alert is emitted
  or saved, no DNS query is made, no classification call is left pending, the seen-set and
  the detection counter stay, and the connection record, with its liveness flag, is left
  exactly as it was. The flag is set only by \<open>open\<close> and \<open>pong\<close>: any step that turns it
  on is one of the two, and once it is off it stays off through any run without them,
  so heartbeat frames alone never keep the stall check from terminating the socket.
\<close>

theorem C6_heartbeat_amended:
  "(ws c = Some OPEN \<and> message_type \<noteq> Some ''certificate_update'' \<longrightarrow>
      step maxRetries cfg e (l, c, ts) (EvMessage (Json message_type dat))
        = Some (l\<lparr> messageCount := messageCount l + 1 \<rparr>, c, ts))
   \<and> (step maxRetries cfg e (l, c, ts) ev = Some (l', c', ts') \<and> isAlive c' \<and> \<not> isAlive c \<longrightarrow>
        ev = EvOpen \<or> ev = EvPong)
   \<and> (run maxRetries cfg e (l, c, ts) evs = Some (l'', c'', ts'') \<and> \<not> isAlive c
        \<and> EvOpen \<notin> set evs \<and> EvPong \<notin> set evs \<longrightarrow> \<not> isAlive c'')"
proof (intro conjI impI)
  assume "ws c = Some OPEN \<and> message_type \<noteq> Some ''certificate_update''"
  then show "step maxRetries cfg e (l, c, ts) (EvMessage (Json message_type dat))
        = Some (l\<lparr> messageCount := messageCount l + 1 \<rparr>, c, ts)"
    by (simp add: step_def enabled_def receive_def Let_def)
next
  assume "step maxRetries cfg e (l, c, ts) ev = Some (l', c', ts') \<and> isAlive c' \<and> \<not> isAlive c"
  then show "ev = EvOpen \<or> ev = EvPong" using step_alive by blast
next
  assume "run maxRetries cfg e (l, c, ts) evs = Some (l'', c'', ts'') \<and> \<not> isAlive c
        \<and> EvOpen \<notin> set evs \<and> EvPong \<notin> set evs"
  then show "\<not> isAlive c''" using run_not_alive by blast
qed

theorem C6_heartbeat_amended_witness:
  "run 5 demoConfig demoEnv (newListener [], connect, []) [EvOpen, EvMessage loadedHeartbeat]
     = Some ((newListener [])\<lparr> messageCount := 1 \<rparr>, onOpen connect, [])
   \<and> step 5 demoConfig demoEnv (newListener [], onStallCheck (onOpen connect), []) EvPong
     = Some (newListener [], onPong (onStallCheck (onOpen connect)), [])
   \<and> isAlive (onPong (onStallCheck (onOpen connect)))
   \<and> \<not> isAlive (onStallCheck (onOpen connect))
   \<and> map_option (isAlive \<circ> fst \<circ> snd)
       (run 5 demoConfig demoEnv (newListener [], onStallCheck (onOpen connect), [])
          [EvMessage heartbeat, EvPingTick, EvMessage loadedHeartbeat]) = Some False"
proof -
  obtain l2 c2 ts2 where r: "run 5 demoConfig demoEnv (newListener [], onStallCheck (onOpen connect), [])
          [EvMessage heartbeat, EvPingTick, EvMessage loadedHeartbeat] = Some (l2, c2, ts2)"
    by (simp add: conn_defs heartbeat_def loadedHeartbeat_def)
  have s: "step 5 demoConfig demoEnv (newListener [], onStallCheck (onOpen connect), []) EvPong
     = Some (newListener [], onPong (onStallCheck (onOpen connect)), [])"
    by (simp add: conn_defs)
  have a: "isAlive (onPong (onStallCheck (onOpen connect)))" "\<not> isAlive (onStallCheck (onOpen connect))"
    by (simp_all add: conn_defs)
  from C6_heartbeat_amended [of "onStallCheck (onOpen connect)" message_type 5 demoConfig demoEnv
      "newListener []" "[]" dat EvPong "newListener []" "onPong (onStallCheck (onOpen connect))" "[]"
      "[EvMessage heartbeat, EvPingTick, EvMessage loadedHeartbeat]" l2 c2 ts2] r s a
  have "\<not> isAlive c2" by simp
  moreover from C6_heartbeat_amended [of "onOpen connect" "Some ''heartbeat''" 5 demoConfig demoEnv
      "newListener []" "[]"]
  have "run 5 demoConfig demoEnv (newListener [], connect, []) [EvOpen, EvMessage loadedHeartbeat]
     = Some ((newListener [])\<lparr> messageCount := 1 \<rparr>, onOpen connect, [])"
    by (simp add: conn_defs loadedHeartbeat_def newListener_def)
  ultimately show ?thesis using r s a by simp
qed

text \<open>
  Claim C6 as stated fails: after a stall check has cleared the liveness flag, a
  heartbeat frame leaves it cleared, and the next stall check terminates the socket.
\<close>

theorem C6_heartbeat_liveness_counterexample:
  "map_option (isAlive \<circ> fst \<circ> snd)
     (run 5 demoConfig demoEnv (newListener [], connect, [])
        [EvOpen, EvStallCheck, EvMessage heartbeat]) = Some False
   \<and> map_option (ws \<circ> fst \<circ> snd)
     (run 5 demoConfig demoEnv (newListener [], connect, [])
        [EvOpen, EvStallCheck, EvMessage heartbeat, EvStallCheck]) = Some (Some CLOSING)"
  by (simp add: conn_defs heartbeat_def)

subsection \<open>Interleaved frames\<close>

text \<open>
  The stepwise and the uninterrupted account of message handling agree: a frame that
  leaves no call pending is handled by \<open>receive\<close> as by \<open>handleCertificateMessage\<close>, and the
  steps of one domain, run back to back without anything in between, are one iteration
  of the loop of \<open>processDomains\<close>.
\<close>

lemma nextDomain_done:
  assumes "snd (nextDomain certData ds l) = None"
  shows "nextDomain certData ds l = (l, None) \<and> processDomains cfg e ds certData l = l"
  using assms
  by (induction ds) (auto simp add: processDomain_def split: if_splits)

lemma receive_done:
  assumes "snd (receive raw l) = None"
  shows "handleCertificateMessage cfg e raw l = fst (receive raw l)"
proof (cases raw)
  case (Json message_type dat)
  show ?thesis
  proof (cases "message_type = Some ''certificate_update''")
    case False
    with Json show ?thesis
      by (simp add: handleCertificateMessage_def receive_def Let_def)
  next
    case True
    show ?thesis
    proof (cases dat)
      case None
      with Json True show ?thesis
        by (simp add: handleCertificateMessage_def receive_def Let_def)
    next
      case (Some certData)
      show ?thesis
      proof (cases "leaf certData")
        case None
        with Json True Some show ?thesis
          by (simp add: handleCertificateMessage_def receive_def Let_def)
      next
        case (Some leafCert)
        let ?l1 = "l\<lparr> messageCount := messageCount l + 1 \<rparr>"
        from assms Json True \<open>dat = Some certData\<close> Some
        have "snd (nextDomain certData (extractDomainsFromCert leafCert) ?l1) = None"
          by (simp add: receive_def Let_def)
        from nextDomain_done [OF this, of cfg e]
        have "nextDomain certData (extractDomainsFromCert leafCert) ?l1 = (?l1, None)"
          and "processDomains cfg e (extractDomainsFromCert leafCert) certData ?l1 = ?l1"
          by simp_all
        with Json True \<open>dat = Some certData\<close> Some show ?thesis
          by (simp add: handleCertificateMessage_def receive_def Let_def)
      qed
    qed
  qed
qed (simp_all add: handleCertificateMessage_def receive_def)

lemma processDomain_as_steps:
  assumes "d \<noteq> []" and "\<not> startsWith d ''*.''"
  shows "processDomain cfg e certData d l =
     (case resume cfg e (AwaitDns certData d [] (length (dnsQueries l)))
             (l\<lparr> dnsQueries := dnsQueries l @ [d] \<rparr>) of
        (l1, None) \<Rightarrow> l1
      | (l1, Some t) \<Rightarrow> fst (resume cfg e t l1))"
  using assms
  by (auto simp add: processDomain_def lookupIP_def Let_def split: option.splits)

text \<open>
  Two frames for the same domain, interleaved: both calls pass the seen-set test before
  either alerts, and the domain is alerted twice. Handled one after the other, the same
  frames give one alert.
\<close>

lemma interleaved_frames_alert_twice:
  "map_option (map domain \<circ> emitted \<circ> fst)
     (run 5 demoConfig demoEnv (newListener [], connect, [])
        [EvOpen, EvMessage patternFrame, EvMessage patternFrame,
         EvResume 0, EvResume 1, EvResume 0, EvResume 0]) = Some [''a.xyz'', ''a.xyz'']
   \<and> map_option (map domain \<circ> emitted \<circ> fst)
     (run 5 demoConfig demoEnv (newListener [], connect, [])
        [EvOpen, EvMessage patternFrame, EvResume 0, EvResume 0, EvMessage patternFrame,
         EvResume 0]) = Some [''a.xyz'']"
  by (simp add: conn_defs patternFrame_def extractDomainsFromCert_def addUnique_def eval_defs)

subsection \<open>The extraction cascade\<close>

lemma tryLayers_three:
  "tryLayers ep w [Layer1, Layer2, Layer3] None [] =
     (if success (callLayer ep w Layer1) then (Some (callLayer ep w Layer1), [(Layer1, True)])
      else if success (callLayer ep w Layer2)
        then (Some (callLayer ep w Layer2), [(Layer1, False), (Layer2, True)])
      else if success (callLayer ep w Layer3)
        then (Some (callLayer ep w Layer3), [(Layer1, False), (Layer2, False), (Layer3, True)])
      else (Some (callLayer ep w Layer3), [(Layer1, False), (Layer2, False), (Layer3, False)]))"
  by (simp add: Let_def)

lemma layer_labels:
  "callLayer ep w Layer1 = Succeeded x via \<Longrightarrow> via = ''AXIOS_CHEERIO''"
  "callLayer ep w Layer2 = Succeeded x via \<Longrightarrow> via = ''PLAYWRIGHT_REMOTE''"
  "callLayer ep w Layer3 = Succeeded x via \<Longrightarrow> via = ''PLAYWRIGHT_LOCAL''"
  by (auto simp add: callLayer_def extractUsingHTMLParser_def extractUsingRemoteBrowser_def
        extractUsingLocalBrowser_def split: option.splits if_splits)

lemma fingerprintSite_reached:
  assumes "parsedHostname w = Inr h" and "dnsAnswer w = Inr a"
  shows "fingerprintSite ep w u =
     (case tryLayers ep w [Layer1, Layer2, Layer3] None [] of
        (Some (Succeeded x via), calls) \<Rightarrow>
          (extractedFingerprint u (sslFieldOf w) (first a) h x via, calls)
      | (_, calls) \<Rightarrow> (degradedFingerprint u (sslFieldOf w) (first a) h, calls))"
  using assms
  by (auto simp add: fingerprintSite_def Let_def extractedFingerprint_def degradedFingerprint_def
        sslFieldOf_def mergeExtraction_def dnsSslOnly_def emptyFingerprint_def
        split: prod.splits option.splits layer_result.splits)

lemma fingerprintSite_not_reached:
  assumes "(\<forall>h. parsedHostname w \<noteq> Inr h) \<or> (\<forall>a. dnsAnswer w \<noteq> Inr a)"
  shows "snd (fingerprintSite ep w u) = [] \<and> fp_error (fst (fingerprintSite ep w u)) \<noteq> None
       \<and> fp_extracted_via (fst (fingerprintSite ep w u)) = None"
  using assms
  by (auto simp add: fingerprintSite_def Let_def emptyFingerprint_def split: sum.splits)

text \<open>
  Claim C5, as amended. For a URL that parses and whose host name resolves,
  \<open>fingerprintSite\<close> tries Tier 1, Tier 2, Tier 3 in this order and uses the first that
  reports success: the result is that tier's extraction, field by field (\<open>dom_hash\<close>,
  \<open>css_vars\<close>, element ids, class names, script list, both flags), with
  \<open>extracted_via\<close> naming the tier (\<open>AXIOS_CHEERIO\<close>, \<open>PLAYWRIGHT_REMOTE\<close>,
  \<open>PLAYWRIGHT_LOCAL\<close>), and no later tier is called; when all three fail the result is
  the degraded fingerprint (\<open>dom_hash\<close> null, lists empty, flags off, \<open>extracted_via\<close>
  the fallback \<open>DNS_SSL_ONLY\<close>). In each case the URL, the SSL field, the resolved
  address and the host name are filled in and there is no error. For a URL that does not
  parse or whose host name does not resolve, no tier is called, and the result carries
  an error and no \<open>extracted_via\<close>.
\<close>

theorem C5_layer_cascade_amended:
  "(parsedHostname w = Inr h \<and> dnsAnswer w = Inr a \<longrightarrow>
      (\<forall>x via. callLayer ep w Layer1 = Succeeded x via \<longrightarrow>
           fingerprintSite ep w u
             = (extractedFingerprint u (sslFieldOf w) (first a) h x via, [(Layer1, True)])
           \<and> via = ''AXIOS_CHEERIO'')
    \<and> (\<forall>x via. callLayer ep w Layer1 = Failed \<and> callLayer ep w Layer2 = Succeeded x via \<longrightarrow>
           fingerprintSite ep w u
             = (extractedFingerprint u (sslFieldOf w) (first a) h x via,
                [(Layer1, False), (Layer2, True)])
           \<and> via = ''PLAYWRIGHT_REMOTE'')
    \<and> (\<forall>x via. callLayer ep w Layer1 = Failed \<and> callLayer ep w Layer2 = Failed
              \<and> callLayer ep w Layer3 = Succeeded x via \<longrightarrow>
           fingerprintSite ep w u
             = (extractedFingerprint u (sslFieldOf w) (first a) h x via,
                [(Layer1, False), (Layer2, False), (Layer3, True)])
           \<and> via = ''PLAYWRIGHT_LOCAL'')
    \<and> (callLayer ep w Layer1 = Failed \<and> callLayer ep w Layer2 = Failed
          \<and> callLayer ep w Layer3 = Failed \<longrightarrow>
           fingerprintSite ep w u
             = (degradedFingerprint u (sslFieldOf w) (first a) h,
                [(Layer1, False), (Layer2, False), (Layer3, False)])))
   \<and> ((\<forall>h'. parsedHostname w \<noteq> Inr h') \<or> (\<forall>a'. dnsAnswer w \<noteq> Inr a') \<longrightarrow>
         snd (fingerprintSite ep w u) = [] \<and> fp_error (fst (fingerprintSite ep w u)) \<noteq> None
         \<and> fp_extracted_via (fst (fingerprintSite ep w u)) = None)"
proof (intro conjI impI allI)
  assume "(\<forall>h'. parsedHostname w \<noteq> Inr h') \<or> (\<forall>a'. dnsAnswer w \<noteq> Inr a')"
  from fingerprintSite_not_reached [OF this]
  show "snd (fingerprintSite ep w u) = []" "fp_error (fst (fingerprintSite ep w u)) \<noteq> None"
    "fp_extracted_via (fst (fingerprintSite ep w u)) = None"
    by simp_all
next
  fix x via
  assume r: "parsedHostname w = Inr h \<and> dnsAnswer w = Inr a"
    and c: "callLayer ep w Layer1 = Succeeded x via"
  from r have eq: "fingerprintSite ep w u =
     (case tryLayers ep w [Layer1, Layer2, Layer3] None [] of
        (Some (Succeeded x via), calls) \<Rightarrow>
          (extractedFingerprint u (sslFieldOf w) (first a) h x via, calls)
      | (_, calls) \<Rightarrow> (degradedFingerprint u (sslFieldOf w) (first a) h, calls))"
    using fingerprintSite_reached by blast
  show "fingerprintSite ep w u
             = (extractedFingerprint u (sslFieldOf w) (first a) h x via, [(Layer1, True)])"
    using c by (simp add: eq tryLayers_three)
  show "via = ''AXIOS_CHEERIO''" using c by (rule layer_labels)
next
  fix x via
  assume r: "parsedHostname w = Inr h \<and> dnsAnswer w = Inr a"
    and c: "callLayer ep w Layer1 = Failed \<and> callLayer ep w Layer2 = Succeeded x via"
  from r have eq: "fingerprintSite ep w u =
     (case tryLayers ep w [Layer1, Layer2, Layer3] None [] of
        (Some (Succeeded x via), calls) \<Rightarrow>
          (extractedFingerprint u (sslFieldOf w) (first a) h x via, calls)
      | (_, calls) \<Rightarrow> (degradedFingerprint u (sslFieldOf w) (first a) h, calls))"
    using fingerprintSite_reached by blast
  show "fingerprintSite ep w u
             = (extractedFingerprint u (sslFieldOf w) (first a) h x via,
                [(Layer1, False), (Layer2, True)])"
    using c by (simp add: eq tryLayers_three)
  show "via = ''PLAYWRIGHT_REMOTE''" using c layer_labels(2) by blast
next
  fix x via
  assume r: "parsedHostname w = Inr h \<and> dnsAnswer w = Inr a"
    and c: "callLayer ep w Layer1 = Failed \<and> callLayer ep w Layer2 = Failed
              \<and> callLayer ep w Layer3 = Succeeded x via"
  from r have eq: "fingerprintSite ep w u =
     (case tryLayers ep w [Layer1, Layer2, Layer3] None [] of
        (Some (Succeeded x via), calls) \<Rightarrow>
          (extractedFingerprint u (sslFieldOf w) (first a) h x via, calls)
      | (_, calls) \<Rightarrow> (degradedFingerprint u (sslFieldOf w) (first a) h, calls))"
    using fingerprintSite_reached by blast
  show "fingerprintSite ep w u
             = (extractedFingerprint u (sslFieldOf w) (first a) h x via,
                [(Layer1, False), (Layer2, False), (Layer3, True)])"
    using c by (simp add: eq tryLayers_three)
  show "via = ''PLAYWRIGHT_LOCAL''" using c layer_labels(3) by blast
next
  assume r: "parsedHostname w = Inr h \<and> dnsAnswer w = Inr a"
    and c: "callLayer ep w Layer1 = Failed \<and> callLayer ep w Layer2 = Failed
          \<and> callLayer ep w Layer3 = Failed"
  from r have eq: "fingerprintSite ep w u =
     (case tryLayers ep w [Layer1, Layer2, Layer3] None [] of
        (Some (Succeeded x via), calls) \<Rightarrow>
          (extractedFingerprint u (sslFieldOf w) (first a) h x via, calls)
      | (_, calls) \<Rightarrow> (degradedFingerprint u (sslFieldOf w) (first a) h, calls))"
    using fingerprintSite_reached by blast
  show "fingerprintSite ep w u
             = (degradedFingerprint u (sslFieldOf w) (first a) h,
                [(Layer1, False), (Layer2, False), (Layer3, False)])"
    using c by (simp add: eq tryLayers_three)
qed

lemmas site_defs = staticSite_def renderedSite_def unreachableSite_def remoteSite_def
  unresolvedSite_def callLayer_def extractUsingHTMLParser_def extractUsingRemoteBrowser_def
  extractUsingLocalBrowser_def truthy_def

theorem C5_layer_cascade_amended_witness:
  "fingerprintSite None staticSite ''https://whitecat.fun''
     = (extractedFingerprint ''https://whitecat.fun'' (SslError ''Could not retrieve SSL info'')
          (Some ''159.198.65.100'') ''whitecat.fun'' (the (htmlParser staticSite)) ''AXIOS_CHEERIO'',
        [(Layer1, True)])
   \<and> fingerprintSite (Some ''ws://browser:3000'') remoteSite ''https://whitecat.fun''
     = (extractedFingerprint ''https://whitecat.fun'' (SslError ''Could not retrieve SSL info'')
          (Some ''159.198.65.100'') ''whitecat.fun'' (the (htmlParser staticSite)) ''PLAYWRIGHT_REMOTE'',
        [(Layer1, False), (Layer2, True)])
   \<and> fingerprintSite None renderedSite ''https://whitecat.fun''
     = (extractedFingerprint ''https://whitecat.fun'' (SslError ''Could not retrieve SSL info'')
          (Some ''159.198.65.100'') ''whitecat.fun'' (the (htmlParser staticSite)) ''PLAYWRIGHT_LOCAL'',
        [(Layer1, False), (Layer2, False), (Layer3, True)])
   \<and> fingerprintSite None unreachableSite ''https://whitecat.fun''
     = (degradedFingerprint ''https://whitecat.fun'' (SslError ''Could not retrieve SSL info'')
          (Some ''159.198.65.100'') ''whitecat.fun'',
        [(Layer1, False), (Layer2, False), (Layer3, False)])
   \<and> snd (fingerprintSite None unresolvedSite ''https://whitecat.fun'') = []"
proof -
  have r: "parsedHostname staticSite = Inr ''whitecat.fun''"
      "dnsAnswer staticSite = Inr [''159.198.65.100'']"
      "sslFieldOf staticSite = SslError ''Could not retrieve SSL info''"
    by (simp_all add: staticSite_def sslFieldOf_def)
  have x: "htmlParser staticSite = Some (the (htmlParser staticSite))"
    by (simp add: staticSite_def)
  have s1: "callLayer None staticSite Layer1
              = Succeeded (the (htmlParser staticSite)) ''AXIOS_CHEERIO''"
    by (simp add: callLayer_def extractUsingHTMLParser_def staticSite_def)
  have s2: "callLayer (Some ''ws://browser:3000'') remoteSite Layer1 = Failed"
      "callLayer (Some ''ws://browser:3000'') remoteSite Layer2
              = Succeeded (the (htmlParser staticSite)) ''PLAYWRIGHT_REMOTE''"
    by (simp_all add: site_defs)
  have s3: "callLayer None renderedSite Layer1 = Failed"
      "callLayer None renderedSite Layer2 = Failed"
      "callLayer None renderedSite Layer3
              = Succeeded (the (htmlParser staticSite)) ''PLAYWRIGHT_LOCAL''"
    by (simp_all add: site_defs)
  have s4: "callLayer None unreachableSite Layer1 = Failed"
      "callLayer None unreachableSite Layer2 = Failed"
      "callLayer None unreachableSite Layer3 = Failed"
    by (simp_all add: site_defs)
  have r2: "parsedHostname remoteSite = Inr ''whitecat.fun''"
      "dnsAnswer remoteSite = Inr [''159.198.65.100'']" "sslFieldOf remoteSite = sslFieldOf staticSite"
    by (simp_all add: remoteSite_def staticSite_def sslFieldOf_def)
  have r3: "parsedHostname renderedSite = Inr ''whitecat.fun''"
      "dnsAnswer renderedSite = Inr [''159.198.65.100'']" "sslFieldOf renderedSite = sslFieldOf staticSite"
    by (simp_all add: renderedSite_def staticSite_def sslFieldOf_def)
  have r4: "parsedHostname unreachableSite = Inr ''whitecat.fun''"
      "dnsAnswer unreachableSite = Inr [''159.198.65.100'']"
      "sslFieldOf unreachableSite = sslFieldOf staticSite"
    by (simp_all add: unreachableSite_def staticSite_def sslFieldOf_def)
  have r5: "\<forall>a'. dnsAnswer unresolvedSite \<noteq> Inr a'"
    by (simp add: unresolvedSite_def)
  have w1: "fingerprintSite None staticSite ''https://whitecat.fun''
     = (extractedFingerprint ''https://whitecat.fun'' (SslError ''Could not retrieve SSL info'')
          (Some ''159.198.65.100'') ''whitecat.fun'' (the (htmlParser staticSite)) ''AXIOS_CHEERIO'',
        [(Layer1, True)])"
    using C5_layer_cascade_amended [of staticSite "''whitecat.fun''" "[''159.198.65.100'']" None
          "''https://whitecat.fun''"] r s1 by simp
  have w2: "fingerprintSite (Some ''ws://browser:3000'') remoteSite ''https://whitecat.fun''
     = (extractedFingerprint ''https://whitecat.fun'' (SslError ''Could not retrieve SSL info'')
          (Some ''159.198.65.100'') ''whitecat.fun'' (the (htmlParser staticSite)) ''PLAYWRIGHT_REMOTE'',
        [(Layer1, False), (Layer2, True)])"
    using C5_layer_cascade_amended [of remoteSite "''whitecat.fun''" "[''159.198.65.100'']"
          "Some ''ws://browser:3000''" "''https://whitecat.fun''"] r r2 s2 by simp
  have w3: "fingerprintSite None renderedSite ''https://whitecat.fun''
     = (extractedFingerprint ''https://whitecat.fun'' (SslError ''Could not retrieve SSL info'')
          (Some ''159.198.65.100'') ''whitecat.fun'' (the (htmlParser staticSite)) ''PLAYWRIGHT_LOCAL'',
        [(Layer1, False), (Layer2, False), (Layer3, True)])"
    using C5_layer_cascade_amended [of renderedSite "''whitecat.fun''" "[''159.198.65.100'']" None
          "''https://whitecat.fun''"] r r3 s3 by simp
  have w4: "fingerprintSite None unreachableSite ''https://whitecat.fun''
     = (degradedFingerprint ''https://whitecat.fun'' (SslError ''Could not retrieve SSL info'')
          (Some ''159.198.65.100'') ''whitecat.fun'',
        [(Layer1, False), (Layer2, False), (Layer3, False)])"
    using C5_layer_cascade_amended [of unreachableSite "''whitecat.fun''" "[''159.198.65.100'']" None
          "''https://whitecat.fun''"] r r4 s4 by simp
  have w5: "snd (fingerprintSite None unresolvedSite ''https://whitecat.fun'') = []"
    using C5_layer_cascade_amended [of unresolvedSite h a None "''https://whitecat.fun''"] r5
    by simp
  from w1 w2 w3 w4 w5 show ?thesis by blast
qed

text \<open>
  Claim C5 as stated fails for a URL whose host name does not resolve: Tier 1 would
  report success, yet no tier is tried, and the result is neither an extraction nor the
  degraded fingerprint: it has no \<open>extracted_via\<close> and carries the resolver's error.
\<close>

theorem C5_unresolved_host_counterexample:
  "success (callLayer None unresolvedSite Layer1)
   \<and> snd (fingerprintSite None unresolvedSite ''https://whitecat.fun'') = []
   \<and> fp_extracted_via (fst (fingerprintSite None unresolvedSite ''https://whitecat.fun'')) = None
   \<and> fp_error (fst (fingerprintSite None unresolvedSite ''https://whitecat.fun''))
       = Some ''queryA ENOTFOUND whitecat.fun''
   \<and> \<not> degraded (fst (fingerprintSite None unresolvedSite ''https://whitecat.fun''))"
  by (simp add: site_defs fingerprintSite_def Let_def emptyFingerprint_def degraded_def)

subsection \<open>Re-running research\<close>

text \<open>
  Claim C7. When every URL handed to \<open>profileSeedURLs\<close> is already in the ledger of
  researched URLs, the call changes nothing: the watchlist (IPs, subnets, fingerprints),
  the profile's deep DNA, infrastructure, name, date and list of seed URLs, the ledger,
  and the three files are as before, and no URL is handed to the scraper. (The only
  thing the call may do is turn an absent \<open>seed_urls\<close> into an empty list in memory.)
\<close>

theorem C7_researched_urls_noop:
  assumes "set urls \<subseteq> set (researchedURLs s)"
  shows "research_watchlist (profileSeedURLs w urls s) = research_watchlist s
       \<and> profile_dna (research_profile (profileSeedURLs w urls s)) = profile_dna (research_profile s)
       \<and> infrastructure (research_profile (profileSeedURLs w urls s)) = infrastructure (research_profile s)
       \<and> orEmpty (seed_urls (research_profile (profileSeedURLs w urls s)))
            = orEmpty (seed_urls (research_profile s))
       \<and> profile_name (research_profile (profileSeedURLs w urls s)) = profile_name (research_profile s)
       \<and> created_at (research_profile (profileSeedURLs w urls s)) = created_at (research_profile s)
       \<and> researchedURLs (profileSeedURLs w urls s) = researchedURLs s
       \<and> fetched (profileSeedURLs w urls s) = fetched s
       \<and> watchlistFile (profileSeedURLs w urls s) = watchlistFile s
       \<and> profileFile (profileSeedURLs w urls s) = profileFile s
       \<and> researchedFile (profileSeedURLs w urls s) = researchedFile s"
proof -
  have "filter (\<lambda>url. url \<notin> set (researchedURLs s)) urls = []"
    using assms by (auto simp add: filter_empty_conv)
  then show ?thesis
    by (simp add: profileSeedURLs_def Let_def orEmpty_def split: option.splits)
qed

theorem C7_researched_urls_noop_witness:
  "set [''https://thewhitewhale.fun''] \<subseteq> set (researchedURLs demoResearch)
   \<and> profileSeedURLs demoWorld [''https://thewhitewhale.fun''] demoResearch = demoResearch"
  using C7_researched_urls_noop [of "[''https://thewhitewhale.fun'']" demoResearch demoWorld]
  by (simp add: demoResearch_def profileSeedURLs_def Let_def orEmpty_def)

end
